theory Spec2Isabelle
  imports Complex_Main
begin


section \<open>Strings of the JavaScript runtime\<close>

text \<open>
  The handler is a Deno edge function. Header values, identifiers and plan names are
  modelled as \<^typ>\<open>string\<close>, a list of 8-bit code units (the Latin-1 range, which is
  what a \<open>Headers\<close> value holds). The string operations the handler uses are written out.
\<close>

definition startsWith :: "string \<Rightarrow> string \<Rightarrow> bool" where
  "startsWith s p = (take (length p) s = p)"

text \<open>\<open>s.split(c)\<close> for a one-character separator: every occurrence cuts, and the
  empty string gives one empty piece.\<close>

fun split_on :: "char \<Rightarrow> string \<Rightarrow> string list" where
  "split_on c [] = [] # []"
| "split_on c (x # xs) =
     (if x = c then [] # split_on c xs
      else (case split_on c xs of [] \<Rightarrow> [x] # [] | p # ps \<Rightarrow> (x # p) # ps))"

text \<open>\<open>xs[i]\<close>: \<open>undefined\<close> (here \<open>None\<close>) out of range.\<close>

definition at_index :: "'a list \<Rightarrow> nat \<Rightarrow> 'a option" where
  "at_index xs i = (if i < length xs then Some (xs ! i) else None)"

text \<open>\<open>!s\<close> for a value that is a string or \<open>undefined\<close>/\<open>null\<close>.\<close>

definition falsy_str :: "string option \<Rightarrow> bool" where
  "falsy_str v = (case v of None \<Rightarrow> True | Some s \<Rightarrow> s = [])"

text \<open>\<open>toLowerCase\<close> on code units below 256: \<open>A\<close>--\<open>Z\<close> and the Latin-1 capitals
  \<open>0xC0\<close>--\<open>0xDE\<close> (without the multiplication sign \<open>0xD7\<close>) move up by 32.\<close>

definition lower_char :: "char \<Rightarrow> char" where
  "lower_char c =
     (let n = (of_char c :: nat)
      in if (65 \<le> n \<and> n \<le> 90) \<or> (192 \<le> n \<and> n \<le> 222 \<and> n \<noteq> 215)
         then char_of (n + 32) else c)"

definition toLowerCase :: "string \<Rightarrow> string" where
  "toLowerCase s = map lower_char s"

subsection \<open>\<open>parseInt(s, 10)\<close>\<close>

text \<open>
  Leading white space is skipped, one sign is read, then the longest run of decimal
  digits; no digit gives \<open>NaN\<close>, here \<open>None\<close>. What follows the digits is ignored.
  The result is an \<^typ>\<open>int\<close>: the source holds it in a double, which is exact below
  \<open>2^53\<close>, and beyond that the rounded value is as far from any clock reading as the
  exact one.
\<close>

definition is_js_space :: "char \<Rightarrow> bool" where
  "is_js_space c = ((of_char c :: nat) \<in> {9, 10, 11, 12, 13, 32, 160})"

definition is_digit :: "char \<Rightarrow> bool" where
  "is_digit c = (48 \<le> (of_char c :: nat) \<and> (of_char c :: nat) \<le> 57)"

definition digits_value :: "string \<Rightarrow> nat" where
  "digits_value z = foldl (\<lambda>a c. 10 * a + (of_char c - 48)) 0 z"

definition parseInt10 :: "string \<Rightarrow> int option" where
  "parseInt10 s =
     (let t = dropWhile is_js_space s;
          negative = (case t of [] \<Rightarrow> False | c # _ \<Rightarrow> c = CHR ''-'');
          u = (case t of [] \<Rightarrow> []
               | c # r \<Rightarrow> if c = CHR ''+'' \<or> c = CHR ''-'' then r else t);
          z = takeWhile is_digit u
      in if z = [] then None
         else Some ((if negative then - 1 else 1) * int (digits_value z)))"

section \<open>Configuration and runtime\<close>

text \<open>The four environment variables, as \<open>Deno.env.get\<close> returns them.\<close>

record env =
  env_PADDLE_WEBHOOK_SIGNING_SECRET :: "string option"
  env_APP_ENVIRONMENT :: "string option"
  env_SUPABASE_URL :: "string option"
  env_SUPABASE_SERVICE_ROLE_KEY :: "string option"

definition PADDLE_WEBHOOK_SIGNING_SECRET :: "env \<Rightarrow> string option" where
  "PADDLE_WEBHOOK_SIGNING_SECRET e = env_PADDLE_WEBHOOK_SIGNING_SECRET e"

text \<open>\<open>Deno.env.get("APP_ENVIRONMENT") || "development"\<close>\<close>

definition APP_ENVIRONMENT :: "env \<Rightarrow> string" where
  "APP_ENVIRONMENT e =
     (case env_APP_ENVIRONMENT e of
        None \<Rightarrow> ''development''
      | Some s \<Rightarrow> if s = [] then ''development'' else s)"

definition WEBHOOK_TIMESTAMP_TOLERANCE_SECONDS :: int where
  "WEBHOOK_TIMESTAMP_TOLERANCE_SECONDS = 300"

section \<open>Signature verification\<close>

text \<open>
  \<open>createHmac("sha256", key).update(msg).digest("hex")\<close> belongs to the standard library,
  not to the handler: it is the parameter \<open>hmac\<close>, with \<open>None\<close> when it throws.
  \<open>now\<close> is \<open>Math.floor(Date.now() / 1000)\<close> and \<open>signatureHeader\<close> is
  \<open>req.headers.get("Paddle-Signature")\<close>. Logging has no effect on the result and is left out.
\<close>

record sig_result =
  isValid :: bool
  reason :: string

definition header_field :: "string \<Rightarrow> string list \<Rightarrow> string option" where
  "header_field key parts =
     (case find (\<lambda>part. startsWith part key) parts of
        None \<Rightarrow> None
      | Some part \<Rightarrow> at_index (split_on CHR ''='' part) 1)"

definition verifyPaddleSignature ::
  "env \<Rightarrow> (string \<Rightarrow> string \<Rightarrow> string option) \<Rightarrow> int \<Rightarrow> string option \<Rightarrow> string \<Rightarrow> sig_result"
where
  "verifyPaddleSignature e hmac now signatureHeader rawBody =
     (if APP_ENVIRONMENT e \<noteq> ''production''
      then \<lparr>isValid = True, reason = ''bypassed_for_development''\<rparr>
      else (case PADDLE_WEBHOOK_SIGNING_SECRET e of
        None \<Rightarrow> \<lparr>isValid = False, reason = ''missing_signing_secret''\<rparr>
      | Some secret \<Rightarrow>
        (if secret = [] then \<lparr>isValid = False, reason = ''missing_signing_secret''\<rparr>
         else (case signatureHeader of
          None \<Rightarrow> \<lparr>isValid = False, reason = ''missing_signature_header''\<rparr>
        | Some header \<Rightarrow>
          (if header = [] then \<lparr>isValid = False, reason = ''missing_signature_header''\<rparr>
           else
            (let parts = split_on CHR '';'' header;
                 timestampStr = header_field ''ts='' parts;
                 h1Hash = header_field ''h1='' parts
             in (case timestampStr of
                  None \<Rightarrow> \<lparr>isValid = False, reason = ''invalid_signature_format''\<rparr>
                | Some tsStr \<Rightarrow>
                  (case h1Hash of
                     None \<Rightarrow> \<lparr>isValid = False, reason = ''invalid_signature_format''\<rparr>
                   | Some h1 \<Rightarrow>
                     (if tsStr = [] \<or> h1 = []
                      then \<lparr>isValid = False, reason = ''invalid_signature_format''\<rparr>
                      else (case parseInt10 tsStr of
                         None \<Rightarrow> \<lparr>isValid = False, reason = ''invalid_timestamp''\<rparr>
                       | Some timestamp \<Rightarrow>
                         (if \<bar>now - timestamp\<bar> > WEBHOOK_TIMESTAMP_TOLERANCE_SECONDS
                          then \<lparr>isValid = False, reason = ''timestamp_too_old''\<rparr>
                          else (case hmac secret (tsStr @ '':'' @ rawBody) of
                             None \<Rightarrow> \<lparr>isValid = False, reason = ''hmac_computation_error''\<rparr>
                           | Some computedHash \<Rightarrow>
                             (if toLowerCase computedHash = toLowerCase h1
                              then \<lparr>isValid = True, reason = ''valid''\<rparr>
                              else \<lparr>isValid = False, reason = ''signature_mismatch''\<rparr>)))))))))))))"

section \<open>Event payloads\<close>

text \<open>
  The payload is whatever \<open>JSON.parse\<close> returns and the handler reads it untyped
  (\<open>any\<close>), so it is modelled as a JSON value; a JavaScript value that may be
  \<open>undefined\<close> is a \<^typ>\<open>'a option\<close>. Numbers are the finite ones.
\<close>

datatype json =
    JNull
  | JBool bool
  | JNum rat
  | JStr string
  | JArr "json list"
  | JObj "(string \<times> json) list"

datatype exn = TypeError

text \<open>
  Reading property \<open>k\<close> of a value that is neither \<open>null\<close> nor \<open>undefined\<close>, for
  the names the handler reads: a field of an object, the \<open>length\<close> and the element
  \<open>0\<close> of an array or a string, and \<open>undefined\<close> for anything else.
\<close>

fun get_prop :: "json \<Rightarrow> string \<Rightarrow> json option" where
  "get_prop (JObj kvs) k = map_of kvs k"
| "get_prop (JArr xs) k =
     (if k = ''length'' then Some (JNum (of_nat (length xs)))
      else if k = ''0'' then at_index xs 0
      else None)"
| "get_prop (JStr s) k =
     (if k = ''length'' then Some (JNum (of_nat (length s)))
      else if k = ''0'' then (case s of [] \<Rightarrow> None | c # _ \<Rightarrow> Some (JStr [c]))
      else None)"
| "get_prop _ k = None"

text \<open>\<open>v.k\<close> raises a \<open>TypeError\<close> on \<open>null\<close> and \<open>undefined\<close>; \<open>v?.k\<close> gives
  \<open>undefined\<close> there.\<close>

definition member :: "json option \<Rightarrow> string \<Rightarrow> exn + json option" where
  "member v k =
     (case v of
        None \<Rightarrow> Inl TypeError
      | Some JNull \<Rightarrow> Inl TypeError
      | Some x \<Rightarrow> Inr (get_prop x k))"

definition opt_member :: "json option \<Rightarrow> string \<Rightarrow> json option" where
  "opt_member v k =
     (case v of
        None \<Rightarrow> None
      | Some JNull \<Rightarrow> None
      | Some x \<Rightarrow> get_prop x k)"

text \<open>Truthiness, and \<open>a || b\<close>.\<close>

fun truthy :: "json option \<Rightarrow> bool" where
  "truthy None = False"
| "truthy (Some JNull) = False"
| "truthy (Some (JBool b)) = b"
| "truthy (Some (JNum n)) = (n \<noteq> 0)"
| "truthy (Some (JStr s)) = (s \<noteq> [])"
| "truthy (Some (JArr xs)) = True"
| "truthy (Some (JObj kvs)) = True"

definition or_else :: "json option \<Rightarrow> json option \<Rightarrow> json option" where
  "or_else a b = (if truthy a then a else b)"

text \<open>
  \<open>v > 0\<close>: \<open>undefined\<close> becomes \<open>NaN\<close>, \<open>null\<close> becomes \<open>0\<close>, \<open>true\<close> becomes \<open>1\<close>.
  A string, an array or an object is first turned into a number by the runtime; that
  conversion is the parameter \<open>positive\<close>.
\<close>

fun gt_zero :: "(json \<Rightarrow> bool) \<Rightarrow> json option \<Rightarrow> bool" where
  "gt_zero positive None = False"
| "gt_zero positive (Some JNull) = False"
| "gt_zero positive (Some (JBool b)) = b"
| "gt_zero positive (Some (JNum n)) = (0 < n)"
| "gt_zero positive (Some v) = positive v"

subsection \<open>Payload validation\<close>

record validation =
  v_isValid :: bool
  v_errors :: "string list"

text \<open>The four checks push their messages in order; reading a field of a \<open>null\<close>
  payload raises.\<close>

definition validateWebhookPayload :: "json \<Rightarrow> exn + validation" where
  "validateWebhookPayload payload =
     (if payload = JNull then Inl TypeError
      else
        (let data = get_prop payload ''data'';
             errors =
               (if \<not> truthy (get_prop payload ''event_type'') then [''Missing event_type''] else [])
               @ (if \<not> truthy (get_prop payload ''event_id'') then [''Missing event_id''] else [])
               @ (if \<not> truthy data then [''Missing data object''] else [])
               @ (case data of
                    None \<Rightarrow> []
                  | Some d \<Rightarrow>
                      (if truthy data \<and> \<not> truthy (opt_member (get_prop d ''custom_data'') ''userId'')
                       then [''Missing userId in custom_data''] else []))
         in Inr \<lparr>v_isValid = (errors = []), v_errors = errors\<rparr>))"

section \<open>The data store\<close>

text \<open>
  The Supabase client is an external collaborator. It is modelled as three tables and
  the six queries the handler issues. A row maps column names to the JSON values
  written; an object literal is sent as JSON, which drops the fields that are
  \<open>undefined\<close>. Every query may fail: \<open>pending_faults\<close> lists, call by call, the error
  the store answers with (\<open>None\<close>, or an exhausted list, lets the call through), and a
  failed call changes no table. An \<open>eq\<close> filter compares values for equality, which is
  exact for the string identifiers the provider sends; an \<open>undefined\<close> filter value is
  sent as the text \<open>undefined\<close>.
\<close>

record db_error =
  code :: string
  err_message :: string

type_synonym row = "string \<rightharpoonup> json"

record plan =
  plan_id :: string
  paddle_product_id :: "string option"
  plan_name :: string

record store =
  profiles :: "json \<rightharpoonup> row"
  subscription_plans :: "plan list"
  user_subscriptions :: "row list"
  pending_faults :: "db_error option list"

definition next_fault :: "store \<Rightarrow> db_error option \<times> store" where
  "next_fault s =
     (case pending_faults s of
        [] \<Rightarrow> (None, s)
      | f # fs \<Rightarrow> (f, s\<lparr>pending_faults := fs\<rparr>))"

definition to_row :: "(string \<times> json option) list \<Rightarrow> row" where
  "to_row kvs = map_of (List.map_filter (\<lambda>(k, v). map_option (Pair k) v) kvs)"

definition filter_value :: "json option \<Rightarrow> json" where
  "filter_value v = (case v of None \<Rightarrow> JStr ''undefined'' | Some x \<Rightarrow> x)"

definition no_rows :: db_error where
  "no_rows = \<lparr>code = ''PGRST116'',
              err_message = ''JSON object requested, multiple (or no) rows returned''\<rparr>"

text \<open>\<open>from("profiles").select("*").eq("user_id", userId).single()\<close>\<close>

definition select_profile :: "store \<Rightarrow> json option \<Rightarrow> (db_error + row) \<times> store" where
  "select_profile s userId =
     (case next_fault s of
        (Some err, s') \<Rightarrow> (Inl err, s')
      | (None, s') \<Rightarrow>
          (case profiles s' (filter_value userId) of
             None \<Rightarrow> (Inl no_rows, s')
           | Some r \<Rightarrow> (Inr r, s')))"

text \<open>\<open>from("profiles").update(data).eq("user_id", userId).select().single()\<close>:
  the columns sent overwrite those of the matching row.\<close>

definition update_profile :: "store \<Rightarrow> json option \<Rightarrow> row \<Rightarrow> (db_error + row) \<times> store" where
  "update_profile s userId data =
     (case next_fault s of
        (Some err, s') \<Rightarrow> (Inl err, s')
      | (None, s') \<Rightarrow>
          (case profiles s' (filter_value userId) of
             None \<Rightarrow> (Inl no_rows, s')
           | Some r \<Rightarrow>
               (Inr (r ++ data),
                s'\<lparr>profiles := (profiles s')(filter_value userId \<mapsto> r ++ data)\<rparr>)))"

text \<open>
  Modelled from the spec: the table definitions are not among the sources; the data
  model makes \<open>user_id\<close> the key of a profile. \<open>from("profiles").insert(data).select().single()\<close>
  therefore refuses a row without \<open>user_id\<close> and a second row for the same \<open>user_id\<close>.
\<close>

definition insert_profile :: "store \<Rightarrow> row \<Rightarrow> (db_error + row) \<times> store" where
  "insert_profile s data =
     (case next_fault s of
        (Some err, s') \<Rightarrow> (Inl err, s')
      | (None, s') \<Rightarrow>
          (case data ''user_id'' of
             None \<Rightarrow> (Inl \<lparr>code = ''23502'', err_message = ''null value in column user_id''\<rparr>, s')
           | Some key \<Rightarrow>
               (if key = JNull
                then (Inl \<lparr>code = ''23502'', err_message = ''null value in column user_id''\<rparr>, s')
                else if profiles s' key \<noteq> None
                then (Inl \<lparr>code = ''23505'', err_message = ''duplicate key value''\<rparr>, s')
                else (Inr data, s'\<lparr>profiles := (profiles s')(key \<mapsto> data)\<rparr>))))"

text \<open>\<open>from("subscription_plans").select("*").eq("paddle_product_id", productId).single()\<close>:
  exactly one matching plan, or the error \<open>PGRST116\<close>.\<close>

definition plan_matches :: "json option \<Rightarrow> plan \<Rightarrow> bool" where
  "plan_matches productId p =
     (case paddle_product_id p of
        None \<Rightarrow> False
      | Some pid \<Rightarrow> filter_value productId = JStr pid)"

definition select_plan :: "store \<Rightarrow> json option \<Rightarrow> (db_error + plan) \<times> store" where
  "select_plan s productId =
     (case next_fault s of
        (Some err, s') \<Rightarrow> (Inl err, s')
      | (None, s') \<Rightarrow>
          (case filter (plan_matches productId) (subscription_plans s') of
             [p] \<Rightarrow> (Inr p, s')
           | _ \<Rightarrow> (Inl no_rows, s')))"

text \<open>
  Modelled from the spec: the table definitions are not among the sources; the data
  model has a subscription upserted keyed by \<open>paddle_subscription_id\<close>.
  \<open>from("user_subscriptions").upsert(data).select().single()\<close> overwrites the columns of
  the row with that key, or adds the row.
\<close>

definition row_matches :: "string \<Rightarrow> json \<Rightarrow> row \<Rightarrow> bool" where
  "row_matches column v r = (v \<noteq> JNull \<and> r column = Some v)"

definition upsert_subscription :: "store \<Rightarrow> row \<Rightarrow> (db_error + row) \<times> store" where
  "upsert_subscription s data =
     (case next_fault s of
        (Some err, s') \<Rightarrow> (Inl err, s')
      | (None, s') \<Rightarrow>
          (case data ''paddle_subscription_id'' of
             None \<Rightarrow> (Inr data, s'\<lparr>user_subscriptions := user_subscriptions s' @ [data]\<rparr>)
           | Some key \<Rightarrow>
               (case find (row_matches ''paddle_subscription_id'' key) (user_subscriptions s') of
                  None \<Rightarrow> (Inr data, s'\<lparr>user_subscriptions := user_subscriptions s' @ [data]\<rparr>)
                | Some r \<Rightarrow>
                    (Inr (r ++ data),
                     s'\<lparr>user_subscriptions :=
                          map (\<lambda>x. if row_matches ''paddle_subscription_id'' key x then x ++ data else x)
                            (user_subscriptions s')\<rparr>))))"

text \<open>\<open>from("user_subscriptions").update(data).eq("paddle_subscription_id", id)\<close>:
  every matching row is overwritten, and no row matching is not an error.\<close>

definition update_subscriptions :: "store \<Rightarrow> json option \<Rightarrow> row \<Rightarrow> db_error option \<times> store" where
  "update_subscriptions s subscriptionId data =
     (case next_fault s of
        (Some err, s') \<Rightarrow> (Some err, s')
      | (None, s') \<Rightarrow>
          (None,
           s'\<lparr>user_subscriptions :=
                map (\<lambda>x. if row_matches ''paddle_subscription_id'' (filter_value subscriptionId) x
                          then x ++ data else x)
                  (user_subscriptions s')\<rparr>))"

section \<open>Synchronising profiles and subscriptions\<close>

text \<open>
  What the runtime supplies: the HMAC, \<open>JSON.parse\<close> (\<open>None\<close> when it throws), the
  conversion behind \<open>> 0\<close>, the clock in seconds and as \<open>new Date().toISOString()\<close>
  (one reading for the whole request), and the request id drawn from \<open>Math.random\<close>.
\<close>

record runtime =
  rt_hmac :: "string \<Rightarrow> string \<Rightarrow> string option"
  rt_json_parse :: "string \<Rightarrow> json option"
  rt_positive :: "json \<Rightarrow> bool"
  rt_now :: int
  rt_iso :: string
  rt_request_id :: string

record user_validation =
  uv_isValid :: bool
  uv_profile :: "row option"
  uv_error :: "string option"

definition validateUser :: "store \<Rightarrow> json option \<Rightarrow> user_validation \<times> store" where
  "validateUser s userId =
     (case select_profile s userId of
        (Inl err, s') \<Rightarrow>
          (if code err = ''PGRST116''
           then (\<lparr>uv_isValid = True, uv_profile = None, uv_error = None\<rparr>, s')
           else (\<lparr>uv_isValid = False, uv_profile = None, uv_error = Some (err_message err)\<rparr>, s'))
      | (Inr profile, s') \<Rightarrow>
          (\<lparr>uv_isValid = True, uv_profile = Some profile, uv_error = None\<rparr>, s'))"

record subscriptionData =
  sd_status :: "json option"
  sd_planName :: string
  sd_customerId :: "json option"

record upsert_result =
  ur_success :: bool
  ur_row :: "row option"
  ur_error :: "string option"

text \<open>The object literal \<open>profileData\<close>, for a \<open>customData\<close> that is not \<open>null\<close>.\<close>

definition profileData ::
  "string \<Rightarrow> json option \<Rightarrow> json \<Rightarrow> subscriptionData \<Rightarrow> (string \<times> json option) list"
where
  "profileData timestamp userId customData sd =
     [(''user_id'', userId),
      (''email'', or_else (get_prop customData ''email'') (Some (JStr ''unknown@example.com''))),
      (''full_name'', or_else (get_prop customData ''full_name'') (Some (JStr ''Unknown User''))),
      (''subscription_status'', or_else (sd_status sd) (Some (JStr ''active''))),
      (''subscription_plan'', Some (JStr (if sd_planName sd = [] then ''unknown'' else sd_planName sd))),
      (''paddle_customer_id'', sd_customerId sd),
      (''updated_at'', Some (JStr timestamp))]"

text \<open>
  Update first; when the store answers that no row matched (\<open>PGRST116\<close>), insert. The
  body sits in a \<open>try\<close>: reading \<open>customData.email\<close> of a \<open>null\<close> or \<open>undefined\<close>
  \<open>customData\<close> ends in the \<open>catch\<close>, which reports the failure.
\<close>

definition upsertUserProfile ::
  "string \<Rightarrow> store \<Rightarrow> json option \<Rightarrow> json option \<Rightarrow> subscriptionData \<Rightarrow> upsert_result \<times> store"
where
  "upsertUserProfile timestamp s userId customData sd =
     (case customData of
        None \<Rightarrow> (\<lparr>ur_success = False, ur_row = None, ur_error = Some ''TypeError''\<rparr>, s)
      | Some cd \<Rightarrow>
        (if cd = JNull
         then (\<lparr>ur_success = False, ur_row = None, ur_error = Some ''TypeError''\<rparr>, s)
         else
           (let pd = profileData timestamp userId cd sd
            in (case update_profile s userId (to_row pd) of
                  (Inr updatedProfile, s1) \<Rightarrow>
                    (\<lparr>ur_success = True, ur_row = Some updatedProfile, ur_error = None\<rparr>, s1)
                | (Inl updateError, s1) \<Rightarrow>
                    (if code updateError = ''PGRST116''
                     then
                       (case insert_profile s1 (to_row (pd @ [(''created_at'', Some (JStr timestamp))])) of
                          (Inl createError, s2) \<Rightarrow>
                            (\<lparr>ur_success = False, ur_row = None,
                              ur_error = Some (err_message createError)\<rparr>, s2)
                        | (Inr newProfile, s2) \<Rightarrow>
                            (\<lparr>ur_success = True, ur_row = Some newProfile, ur_error = None\<rparr>, s2))
                     else
                       (\<lparr>ur_success = False, ur_row = None,
                         ur_error = Some (err_message updateError)\<rparr>, s1))))))"

record subscriptionRecord =
  sr_userId :: "json option"
  sr_planId :: "json option"
  sr_paddleSubscriptionId :: "json option"
  sr_status :: "json option"
  sr_currentPeriodStart :: "json option"
  sr_currentPeriodEnd :: "json option"

definition upsertSubscription :: "string \<Rightarrow> store \<Rightarrow> subscriptionRecord \<Rightarrow> upsert_result \<times> store" where
  "upsertSubscription timestamp s sr =
     (case upsert_subscription s
             (to_row [(''user_id'', sr_userId sr),
                      (''plan_id'', sr_planId sr),
                      (''paddle_subscription_id'', sr_paddleSubscriptionId sr),
                      (''status'', sr_status sr),
                      (''current_period_start'', sr_currentPeriodStart sr),
                      (''current_period_end'', sr_currentPeriodEnd sr),
                      (''updated_at'', Some (JStr timestamp))]) of
        (Inl err, s') \<Rightarrow>
          (\<lparr>ur_success = False, ur_row = None, ur_error = Some (err_message err)\<rparr>, s')
      | (Inr subscription, s') \<Rightarrow>
          (\<lparr>ur_success = True, ur_row = Some subscription, ur_error = None\<rparr>, s'))"

subsection \<open>The three event handlers\<close>

text \<open>
  A handler result carries a message built from a template; the values put into the
  template are kept as they are instead of being printed.
\<close>

datatype msg =
    User_validation_failed "string option"
  | Product_id_missing
  | Plan_not_found "json option"
  | Profile_update_failed "string option"
  | Subscription_update_failed "string option"
  | Subscription_processed "json option" string
  | Profile_update_failed_one_time "string option"
  | Transaction_processed
  | Profile_update_failed_cancellation "string option"
  | Subscription_record_update_failed string
  | Cancellation_processed
  | Acknowledged "json option"

record HandlerResult =
  success :: bool
  message :: msg

text \<open>\<open>items?.[0]?.product_id || items?.[0]?.price_id || product_id\<close> of a subscription
  that is not \<open>null\<close>.\<close>

definition subscription_product_id :: "json \<Rightarrow> json option" where
  "subscription_product_id subscription =
     (let first_item = opt_member (get_prop subscription ''items'') ''0''
      in or_else (opt_member first_item ''product_id'')
           (or_else (opt_member first_item ''price_id'')
              (get_prop subscription ''product_id'')))"

definition handleSubscriptionEvent ::
  "runtime \<Rightarrow> store \<Rightarrow> json \<Rightarrow> (exn + HandlerResult) \<times> store"
where
  "handleSubscriptionEvent rt s payload =
     (case member (Some payload) ''data'' of
        Inl x \<Rightarrow> (Inl x, s)
      | Inr data \<Rightarrow>
        (case data of
           None \<Rightarrow> (Inl TypeError, s)
         | Some subscription \<Rightarrow>
           (if subscription = JNull then (Inl TypeError, s)
            else
              (let customData = or_else (get_prop subscription ''custom_data'') (Some (JObj []));
                   userId = opt_member customData ''userId''
               in (case validateUser s userId of
                     (userValidation, s1) \<Rightarrow>
                       (if \<not> uv_isValid userValidation
                        then (Inr \<lparr>success = False,
                                   message = User_validation_failed (uv_error userValidation)\<rparr>, s1)
                        else
                          (let productId = subscription_product_id subscription
                           in (if \<not> truthy productId
                               then (Inr \<lparr>success = False, message = Product_id_missing\<rparr>, s1)
                               else
                                 (case select_plan s1 productId of
                                    (Inl planError, s2) \<Rightarrow>
                                      (Inr \<lparr>success = False, message = Plan_not_found productId\<rparr>, s2)
                                  | (Inr plan, s2) \<Rightarrow>
                                      (case upsertUserProfile (rt_iso rt) s2 userId customData
                                              \<lparr>sd_status = get_prop subscription ''status'',
                                               sd_planName = toLowerCase (plan_name plan),
                                               sd_customerId = get_prop subscription ''customer_id''\<rparr> of
                                         (profileResult, s3) \<Rightarrow>
                                           (if \<not> ur_success profileResult
                                            then (Inr \<lparr>success = False,
                                                       message = Profile_update_failed (ur_error profileResult)\<rparr>, s3)
                                            else
                                              (case upsertSubscription (rt_iso rt) s3
                                                      \<lparr>sr_userId = userId,
                                                       sr_planId = Some (JStr (plan_id plan)),
                                                       sr_paddleSubscriptionId = get_prop subscription ''id'',
                                                       sr_status = get_prop subscription ''status'',
                                                       sr_currentPeriodStart =
                                                         opt_member (get_prop subscription ''current_billing_period'') ''starts_at'',
                                                       sr_currentPeriodEnd =
                                                         opt_member (get_prop subscription ''current_billing_period'') ''ends_at''\<rparr> of
                                                 (subscriptionResult, s4) \<Rightarrow>
                                                   (if \<not> ur_success subscriptionResult
                                                    then (Inr \<lparr>success = False,
                                                               message = Subscription_update_failed (ur_error subscriptionResult)\<rparr>, s4)
                                                    else (Inr \<lparr>success = True,
                                                               message = Subscription_processed
                                                                 (get_prop subscription ''status'') (plan_name plan)\<rparr>, s4))))))))))))))"

text \<open>\<open>item.product_id || item.price_id\<close> for \<open>item = transaction.items[0]\<close>, when
  reading the item does not raise.\<close>

definition transaction_product_id :: "json \<Rightarrow> json option" where
  "transaction_product_id transaction =
     (let item = opt_member (get_prop transaction ''items'') ''0''
      in or_else (opt_member item ''product_id'') (opt_member item ''price_id''))"

text \<open>
  A completed transaction. Inside the guard \<open>transaction.items\<close> is neither \<open>null\<close> nor
  \<open>undefined\<close>, but its element \<open>0\<close> may be, and then \<open>item.product_id\<close> raises.
\<close>

definition handleTransactionCompleted ::
  "runtime \<Rightarrow> store \<Rightarrow> json \<Rightarrow> (exn + HandlerResult) \<times> store"
where
  "handleTransactionCompleted rt s payload =
     (case member (Some payload) ''data'' of
        Inl x \<Rightarrow> (Inl x, s)
      | Inr data \<Rightarrow>
        (case data of
           None \<Rightarrow> (Inl TypeError, s)
         | Some transaction \<Rightarrow>
           (if transaction = JNull then (Inl TypeError, s)
            else
              (let customData = or_else (get_prop transaction ''custom_data'') (Some (JObj []));
                   userId = opt_member customData ''userId''
               in (case validateUser s userId of
                     (userValidation, s1) \<Rightarrow>
                       (if \<not> uv_isValid userValidation
                        then (Inr \<lparr>success = False,
                                   message = User_validation_failed (uv_error userValidation)\<rparr>, s1)
                        else if \<not> truthy (get_prop transaction ''subscription_id'')
                                \<and> gt_zero (rt_positive rt)
                                      (opt_member (get_prop transaction ''items'') ''length'')
                        then
                          (case member (opt_member (get_prop transaction ''items'') ''0'') ''product_id'' of
                             Inl x \<Rightarrow> (Inl x, s1)
                           | Inr item_product_id \<Rightarrow>
                             (let productId = transaction_product_id transaction
                              in (if truthy productId
                                  then
                                    (case select_plan s1 productId of
                                       (Inl planError, s2) \<Rightarrow>
                                         (Inr \<lparr>success = True, message = Transaction_processed\<rparr>, s2)
                                     | (Inr plan, s2) \<Rightarrow>
                                         (case upsertUserProfile (rt_iso rt) s2 userId customData
                                                 \<lparr>sd_status = Some (JStr ''active''),
                                                  sd_planName = toLowerCase (plan_name plan),
                                                  sd_customerId = get_prop transaction ''customer_id''\<rparr> of
                                            (profileResult, s3) \<Rightarrow>
                                              (if \<not> ur_success profileResult
                                               then (Inr \<lparr>success = False,
                                                          message = Profile_update_failed_one_time
                                                            (ur_error profileResult)\<rparr>, s3)
                                               else (Inr \<lparr>success = True,
                                                          message = Transaction_processed\<rparr>, s3))))
                                  else (Inr \<lparr>success = True, message = Transaction_processed\<rparr>, s1))))
                        else (Inr \<lparr>success = True, message = Transaction_processed\<rparr>, s1)))))))"

definition handleSubscriptionCanceled ::
  "runtime \<Rightarrow> store \<Rightarrow> json \<Rightarrow> (exn + HandlerResult) \<times> store"
where
  "handleSubscriptionCanceled rt s payload =
     (case member (Some payload) ''data'' of
        Inl x \<Rightarrow> (Inl x, s)
      | Inr data \<Rightarrow>
        (case data of
           None \<Rightarrow> (Inl TypeError, s)
         | Some subscription \<Rightarrow>
           (if subscription = JNull then (Inl TypeError, s)
            else
              (let customData = or_else (get_prop subscription ''custom_data'') (Some (JObj []));
                   userId = opt_member customData ''userId''
               in (case validateUser s userId of
                     (userValidation, s1) \<Rightarrow>
                       (if \<not> uv_isValid userValidation
                        then (Inr \<lparr>success = False,
                                   message = User_validation_failed (uv_error userValidation)\<rparr>, s1)
                        else
                          (case upsertUserProfile (rt_iso rt) s1 userId customData
                                  \<lparr>sd_status = or_else (get_prop subscription ''status'')
                                                 (Some (JStr ''canceled'')),
                                   sd_planName = ''free'',
                                   sd_customerId = get_prop subscription ''customer_id''\<rparr> of
                             (profileResult, s2) \<Rightarrow>
                               (if \<not> ur_success profileResult
                                then (Inr \<lparr>success = False,
                                           message = Profile_update_failed_cancellation
                                             (ur_error profileResult)\<rparr>, s2)
                                else
                                  (case update_subscriptions s2 (get_prop subscription ''id'')
                                          (to_row
                                             [(''status'', or_else (get_prop subscription ''status'')
                                                             (Some (JStr ''canceled''))),
                                              (''updated_at'', Some (JStr (rt_iso rt))),
                                              (''current_period_end'',
                                                 or_else (opt_member (get_prop subscription ''current_billing_period'')
                                                            ''ends_at'')
                                                   (Some (JStr (rt_iso rt))))]) of
                                     (Some subscriptionUpdateError, s3) \<Rightarrow>
                                       (Inr \<lparr>success = False,
                                             message = Subscription_record_update_failed
                                               (err_message subscriptionUpdateError)\<rparr>, s3)
                                   | (None, s3) \<Rightarrow>
                                       (Inr \<lparr>success = True, message = Cancellation_processed\<rparr>, s3))))))))))"

section \<open>The request handler\<close>

record request =
  req_method :: string
  req_signature :: "string option"
  req_text :: "string option"

text \<open>\<open>req_signature\<close> is \<open>req.headers.get("Paddle-Signature")\<close>; \<open>req_text\<close> is
  \<open>await req.text()\<close>, \<open>None\<close> when reading the body throws.\<close>

datatype response_body =
    Ok_text
  | Error_only string
  | Signature_failed string
  | Invalid_structure "string list"
  | Received bool msg string
  | Internal_error string

record response =
  status :: nat
  body :: response_body

definition validateEnvironment :: "env \<Rightarrow> bool" where
  "validateEnvironment e =
     (if falsy_str (env_SUPABASE_URL e) \<or> falsy_str (env_SUPABASE_SERVICE_ROLE_KEY e) then False
      else if APP_ENVIRONMENT e = ''production'' \<and> falsy_str (PADDLE_WEBHOOK_SIGNING_SECRET e) then False
      else True)"

text \<open>The \<open>switch\<close> on \<open>payload.event_type\<close>, for a payload that is not \<open>null\<close>.\<close>

definition route :: "runtime \<Rightarrow> store \<Rightarrow> json \<Rightarrow> (exn + HandlerResult) \<times> store" where
  "route rt s payload =
     (let event_type = get_prop payload ''event_type''
      in if event_type = Some (JStr ''subscription.created'')
            \<or> event_type = Some (JStr ''subscription.updated'')
         then handleSubscriptionEvent rt s payload
         else if event_type = Some (JStr ''transaction.completed'')
         then handleTransactionCompleted rt s payload
         else if event_type = Some (JStr ''subscription.canceled'')
         then handleSubscriptionCanceled rt s payload
         else (Inr \<lparr>success = True, message = Acknowledged event_type\<rparr>, s))"

text \<open>
  The entry point. After parsing, the log line reads \<open>payload.event_type\<close> inside the
  same \<open>try\<close>, so a \<open>null\<close> payload is answered like a syntax error. Every handler
  message is a non-empty string, so the fallback in
  \<open>result.message || "Event processed successfully"\<close> is never taken. An exception of a
  handler reaches the outer \<open>catch\<close>. The client is taken to be constructible from the
  two connection variables once they are set.
\<close>

definition serve :: "env \<Rightarrow> runtime \<Rightarrow> store \<Rightarrow> request \<Rightarrow> response \<times> store" where
  "serve e rt s req =
     (if req_method req = ''OPTIONS'' then (\<lparr>status = 200, body = Ok_text\<rparr>, s)
      else if \<not> validateEnvironment e
      then (\<lparr>status = 500, body = Error_only ''Server configuration error''\<rparr>, s)
      else
        (case req_text req of
           None \<Rightarrow> (\<lparr>status = 400, body = Error_only ''Invalid request body''\<rparr>, s)
         | Some rawBody \<Rightarrow>
           (let signatureResult =
                  verifyPaddleSignature e (rt_hmac rt) (rt_now rt) (req_signature req) rawBody
            in if \<not> isValid signatureResult
               then (\<lparr>status = 401, body = Signature_failed (reason signatureResult)\<rparr>, s)
               else
                 (case rt_json_parse rt rawBody of
                    None \<Rightarrow> (\<lparr>status = 400, body = Error_only ''Invalid JSON payload''\<rparr>, s)
                  | Some payload \<Rightarrow>
                    (if payload = JNull
                     then (\<lparr>status = 400, body = Error_only ''Invalid JSON payload''\<rparr>, s)
                     else
                       (case validateWebhookPayload payload of
                          Inl x \<Rightarrow> (\<lparr>status = 500, body = Internal_error (rt_request_id rt)\<rparr>, s)
                        | Inr validation \<Rightarrow>
                          (if \<not> v_isValid validation
                           then (\<lparr>status = 400, body = Invalid_structure (v_errors validation)\<rparr>, s)
                           else
                             (case route rt s payload of
                                (Inl x, s') \<Rightarrow>
                                  (\<lparr>status = 500, body = Internal_error (rt_request_id rt)\<rparr>, s')
                              | (Inr result, s') \<Rightarrow>
                                  (\<lparr>status = 200,
                                    body = Received (success result) (message result)
                                             (rt_request_id rt)\<rparr>, s')))))))))"

section \<open>Sample configurations and inputs\<close>

text \<open>Concrete values at which the theorems below are instantiated and evaluated.\<close>

definition production_env :: env where
  "production_env =
     \<lparr>env_PADDLE_WEBHOOK_SIGNING_SECRET = Some ''k'',
      env_APP_ENVIRONMENT = Some ''production'',
      env_SUPABASE_URL = Some ''https://db.example'',
      env_SUPABASE_SERVICE_ROLE_KEY = Some ''service-key''\<rparr>"

definition keyless_env :: env where
  "keyless_env = production_env\<lparr>env_PADDLE_WEBHOOK_SIGNING_SECRET := None\<rparr>"

definition development_env :: env where
  "development_env =
     production_env\<lparr>env_PADDLE_WEBHOOK_SIGNING_SECRET := None, env_APP_ENVIRONMENT := None\<rparr>"

text \<open>A stand-in for the keyed digest: key and message, concatenated.\<close>

definition concat_hmac :: "string \<Rightarrow> string \<Rightarrow> string option" where
  "concat_hmac key msg = Some (key @ msg)"

text \<open>An event without \<open>data\<close>, and one whose \<open>data\<close> has no \<open>custom_data\<close>.\<close>

definition event_without_data :: json where
  "event_without_data =
     JObj [(''event_type'', JStr ''subscription.created''), (''event_id'', JStr ''evt_1'')]"

definition event_without_user :: json where
  "event_without_user = JObj [(''event_id'', JStr ''evt_2''), (''data'', JObj [(''id'', JStr ''sub_1'')])]"

text \<open>A store with one plan, one profile and one subscription, answering every call.\<close>

definition premium_plan :: plan where
  "premium_plan =
     \<lparr>plan_id = ''plan_premium'', paddle_product_id = Some ''pro_premium_001'',
      plan_name = ''Premium''\<rparr>"

definition stored_profile :: row where
  "stored_profile =
     [''user_id'' \<mapsto> JStr ''user_1'', ''email'' \<mapsto> JStr ''ada@example.com'',
      ''full_name'' \<mapsto> JStr ''Ada'', ''subscription_status'' \<mapsto> JStr ''trialing'',
      ''subscription_plan'' \<mapsto> JStr ''basic'']"

definition stored_subscription :: row where
  "stored_subscription =
     [''user_id'' \<mapsto> JStr ''user_1'', ''paddle_subscription_id'' \<mapsto> JStr ''sub_1'',
      ''status'' \<mapsto> JStr ''active'']"

definition sample_store :: store where
  "sample_store =
     \<lparr>profiles = [JStr ''user_1'' \<mapsto> stored_profile],
      subscription_plans = [premium_plan],
      user_subscriptions = [stored_subscription],
      pending_faults = []\<rparr>"

text \<open>Event bodies: \<open>data\<close> of a subscription with a known product, with an unknown
  one and with none; all for \<open>user_1\<close>, whose \<open>custom_data\<close> has no \<open>email\<close> and no
  \<open>full_name\<close>.\<close>

definition user_1_data :: json where
  "user_1_data = JObj [(''userId'', JStr ''user_1'')]"

definition known_subscription :: json where
  "known_subscription =
     JObj [(''id'', JStr ''sub_1''), (''status'', JStr ''active''),
           (''items'', JArr [JObj [(''price_id'', JStr ''pri_1''),
                                   (''product_id'', JStr ''pro_premium_001'')]]),
           (''custom_data'', user_1_data)]"

definition unknown_subscription :: json where
  "unknown_subscription =
     JObj [(''id'', JStr ''sub_2''), (''status'', JStr ''active''),
           (''items'', JArr [JObj [(''price_id'', JStr ''pri_invalid_product_id'')]]),
           (''custom_data'', user_1_data)]"

definition itemless_subscription :: json where
  "itemless_subscription =
     JObj [(''id'', JStr ''sub_3''), (''items'', JArr []), (''custom_data'', user_1_data)]"

definition event :: "string \<Rightarrow> json \<Rightarrow> json" where
  "event event_type data =
     JObj [(''event_type'', JStr event_type), (''event_id'', JStr ''evt_1''), (''data'', data)]"

text \<open>Transactions: a one-time purchase of the known product, one whose only
  identifier is a top-level \<open>product_id\<close>, one for an unknown price, one that belongs to
  a subscription, and one whose first item is \<open>null\<close>.\<close>

definition one_time_purchase :: json where
  "one_time_purchase =
     JObj [(''id'', JStr ''txn_1''), (''customer_id'', JStr ''ctm_1''),
           (''items'', JArr [JObj [(''product_id'', JStr ''pro_premium_001'')]]),
           (''custom_data'', user_1_data)]"

definition top_level_purchase :: json where
  "top_level_purchase =
     JObj [(''id'', JStr ''txn_2''), (''product_id'', JStr ''pro_premium_001''),
           (''items'', JArr [JObj [(''quantity'', JNum 1)]]),
           (''custom_data'', user_1_data)]"

definition unknown_purchase :: json where
  "unknown_purchase =
     JObj [(''id'', JStr ''txn_3''),
           (''items'', JArr [JObj [(''price_id'', JStr ''pri_invalid_product_id'')]]),
           (''custom_data'', user_1_data)]"

definition renewal :: json where
  "renewal =
     JObj [(''id'', JStr ''txn_4''), (''subscription_id'', JStr ''sub_1''),
           (''items'', JArr [JObj [(''product_id'', JStr ''pro_premium_001'')]]),
           (''custom_data'', user_1_data)]"

definition null_item_purchase :: json where
  "null_item_purchase =
     JObj [(''id'', JStr ''txn_5''), (''items'', JArr [JNull]), (''custom_data'', user_1_data)]"

text \<open>A cancellation without a status, for a subscription the store has, and one for
  a subscription it does not have.\<close>

definition cancellation :: json where
  "cancellation =
     JObj [(''id'', JStr ''sub_1''),
           (''current_billing_period'', JObj [(''ends_at'', JStr ''2025-02-01T00:00:00Z'')]),
           (''custom_data'', user_1_data)]"

definition stray_cancellation :: json where
  "stray_cancellation =
     JObj [(''id'', JStr ''sub_9''), (''status'', JStr ''paused''), (''custom_data'', user_1_data)]"

text \<open>A runtime whose \<open>JSON.parse\<close> knows three bodies.\<close>

definition sample_runtime :: runtime where
  "sample_runtime =
     \<lparr>rt_hmac = concat_hmac,
      rt_json_parse = map_of [(''known'', event ''subscription.created'' known_subscription),
                              (''unknown'', event ''subscription.created'' unknown_subscription),
                              (''null-item'', event ''transaction.completed'' null_item_purchase)],
      rt_positive = (\<lambda>v. False),
      rt_now = 1100,
      rt_iso = ''2025-01-01T00:00:00.000Z'',
      rt_request_id = ''r1''\<rparr>"

text \<open>Signed requests in production: one whose body parses to the event with the
  unknown product, and one whose body parses to the transaction with the \<open>null\<close> item.\<close>

definition unknown_product_request :: request where
  "unknown_product_request =
     \<lparr>req_method = ''POST'',
      req_signature = Some ''ts=1000;h1=K1000:unknown'',
      req_text = Some ''unknown''\<rparr>"

definition null_item_request :: request where
  "null_item_request =
     \<lparr>req_method = ''POST'',
      req_signature = Some ''ts=1000;h1=K1000:null-item'',
      req_text = Some ''null-item''\<rparr>"


section \<open>Properties of signature verification\<close>

lemma split_on_not_Nil: "split_on c xs \<noteq> []"
  by (induction xs) (auto split: list.splits)

lemma length_split_on_Cons: "length (split_on c (x # xs)) \<ge> length (split_on c xs)"
  using split_on_not_Nil [of c xs] by (cases "split_on c xs") auto

text \<open>A field is absent from the header exactly when no part of it starts with the
  field's key.\<close>

lemma header_field_absent_iff:
  "header_field (a # b # ''='') parts = None \<longleftrightarrow> (\<forall>part \<in> set parts. \<not> startsWith part (a # b # ''=''))"
proof -
  have two: "1 < length (split_on CHR ''='' part)" if "startsWith part (a # b # ''='')" for part
  proof -
    from that obtain rest where part: "part = a # b # CHR ''='' # rest"
      by (cases part; cases "tl part"; cases "tl (tl part)") (auto simp: startsWith_def)
    have "1 < length (split_on CHR ''='' (CHR ''='' # rest))"
      using split_on_not_Nil [of "CHR ''=''" rest] by (cases "split_on CHR ''='' rest") auto
    then have "1 < length (split_on CHR ''='' (b # CHR ''='' # rest))"
      using length_split_on_Cons [of "CHR ''=''" "CHR ''='' # rest" b] by linarith
    then have "1 < length (split_on CHR ''='' (a # b # CHR ''='' # rest))"
      using length_split_on_Cons [of "CHR ''=''" "b # CHR ''='' # rest" a] by linarith
    with part show ?thesis by simp
  qed
  show ?thesis
  proof (cases "find (\<lambda>part. startsWith part (a # b # ''='')) parts")
    case None
    then have "\<forall>part \<in> set parts. \<not> startsWith part (a # b # ''='')"
      by (simp add: find_None_iff)
    with None show ?thesis by (simp add: header_field_def)
  next
    case (Some part)
    then have "startsWith part (a # b # ''='')" and "part \<in> set parts"
      by (auto simp: find_Some_iff)
    with Some two [of part] show ?thesis
      by (auto simp: header_field_def at_index_def)
  qed
qed

text \<open>
  C1. In production without a signing secret (unset or empty) verification fails closed
  with \<open>missing_signing_secret\<close>; outside production it reports
  \<open>bypassed_for_development\<close> whatever the header and the body are; and in production the
  reason is never \<open>bypassed_for_development\<close>.
\<close>

theorem verify_modes:
  "(APP_ENVIRONMENT e = ''production'' \<and> falsy_str (PADDLE_WEBHOOK_SIGNING_SECRET e) \<longrightarrow>
      verifyPaddleSignature e hmac now header rawBody
        = \<lparr>isValid = False, reason = ''missing_signing_secret''\<rparr>)
   \<and> (APP_ENVIRONMENT e \<noteq> ''production'' \<longrightarrow>
      verifyPaddleSignature e hmac now header rawBody
        = \<lparr>isValid = True, reason = ''bypassed_for_development''\<rparr>)
   \<and> (APP_ENVIRONMENT e = ''production'' \<longrightarrow>
      reason (verifyPaddleSignature e hmac now header rawBody) \<noteq> ''bypassed_for_development'')"
  by (simp add: verifyPaddleSignature_def falsy_str_def Let_def split: option.splits)

theorem verify_modes_witness:
  "verifyPaddleSignature keyless_env concat_hmac 0 (Some ''ts=0;h1=ab'') ''{}''
     = \<lparr>isValid = False, reason = ''missing_signing_secret''\<rparr>
   \<and> verifyPaddleSignature development_env concat_hmac 0 None ''{}''
     = \<lparr>isValid = True, reason = ''bypassed_for_development''\<rparr>
   \<and> reason (verifyPaddleSignature production_env concat_hmac 0 None ''{}'')
     \<noteq> ''bypassed_for_development''"
  using verify_modes [of keyless_env concat_hmac 0 "Some ''ts=0;h1=ab''" "''{}''"]
        verify_modes [of development_env concat_hmac 0 None "''{}''"]
        verify_modes [of production_env concat_hmac 0 None "''{}''"]
  by (simp add: APP_ENVIRONMENT_def PADDLE_WEBHOOK_SIGNING_SECRET_def falsy_str_def
        keyless_env_def development_env_def production_env_def)

lemma header_field_nonempty:
  "header_field key (split_on c header) = Some x \<Longrightarrow> key \<noteq> [] \<Longrightarrow> header \<noteq> []"
  by (auto simp: header_field_def startsWith_def)

lemma parseInt10_nonempty: "parseInt10 s = Some n \<Longrightarrow> s \<noteq> []"
  by (auto simp: parseInt10_def)

text \<open>
  C2. In production, with a secret configured and a header whose \<open>ts\<close> field parses to
  a timestamp within 300 seconds of the clock, verification succeeds exactly when the
  header has a non-empty \<open>h1\<close> field that equals, up to letter case, the digest of
  \<open>ts:rawBody\<close> under the secret. If it succeeds for one body, then for every other body
  whose digest differs from the first one it fails with \<open>signature_mismatch\<close>. (That two
  bodies have different digests is what the HMAC provides; it is a premise here.)
\<close>

theorem verify_hmac:
  assumes "APP_ENVIRONMENT e = ''production''"
    and "PADDLE_WEBHOOK_SIGNING_SECRET e = Some secret" and "secret \<noteq> []"
    and "header_field ''ts='' (split_on CHR '';'' header) = Some tsStr"
    and "parseInt10 tsStr = Some ts" and "\<bar>now - ts\<bar> \<le> 300"
  shows "(isValid (verifyPaddleSignature e hmac now (Some header) rawBody) \<longleftrightarrow>
           (\<exists>h1 d. header_field ''h1='' (split_on CHR '';'' header) = Some h1 \<and> h1 \<noteq> []
              \<and> hmac secret (tsStr @ '':'' @ rawBody) = Some d \<and> toLowerCase d = toLowerCase h1))
       \<and> (\<forall>h1 d rawBody' d'.
             header_field ''h1='' (split_on CHR '';'' header) = Some h1 \<and> h1 \<noteq> [] \<and>
             hmac secret (tsStr @ '':'' @ rawBody) = Some d \<and> toLowerCase d = toLowerCase h1 \<and>
             hmac secret (tsStr @ '':'' @ rawBody') = Some d' \<and> toLowerCase d' \<noteq> toLowerCase d
             \<longrightarrow> verifyPaddleSignature e hmac now (Some header) rawBody'
                   = \<lparr>isValid = False, reason = ''signature_mismatch''\<rparr>)"
proof -
  from assms(4) have h: "header \<noteq> []" by (auto dest: header_field_nonempty)
  from assms(5) have t: "tsStr \<noteq> []" by (rule parseInt10_nonempty)
  from assms h t show ?thesis
    by (auto simp add: verifyPaddleSignature_def WEBHOOK_TIMESTAMP_TOLERANCE_SECONDS_def Let_def
        split: option.splits)
qed

lemma sample_ts_field:
  "header_field ''ts='' (split_on CHR '';'' ''ts=1000;h1=K1000:{}'') = Some ''1000''"
  by (simp add: header_field_def startsWith_def at_index_def)

lemma sample_h1_field:
  "header_field ''h1='' (split_on CHR '';'' ''ts=1000;h1=K1000:{}'') = Some ''K1000:{}''"
  by (simp add: header_field_def startsWith_def at_index_def)

lemma sample_parseInt: "parseInt10 ''1000'' = Some 1000"
  by (simp add: parseInt10_def is_js_space_def is_digit_def digits_value_def)

lemma sample_production:
  "APP_ENVIRONMENT production_env = ''production''"
  "PADDLE_WEBHOOK_SIGNING_SECRET production_env = Some ''k''"
  by (simp_all add: APP_ENVIRONMENT_def PADDLE_WEBHOOK_SIGNING_SECRET_def production_env_def)

theorem verify_hmac_witness:
  "isValid (verifyPaddleSignature production_env concat_hmac 1100 (Some ''ts=1000;h1=K1000:{}'') ''{}'')
   \<and> verifyPaddleSignature production_env concat_hmac 1100 (Some ''ts=1000;h1=K1000:{}'') ''{ }''
       = \<lparr>isValid = False, reason = ''signature_mismatch''\<rparr>"
proof -
  have near: "\<bar>1100 - 1000\<bar> \<le> (300 :: int)" and key: "''k'' \<noteq> []" by simp_all
  note both = verify_hmac [OF sample_production(1) sample_production(2) key sample_ts_field
      sample_parseInt near, of concat_hmac "''{}''"]
  have digest: "toLowerCase ''k1000:{}'' = toLowerCase ''K1000:{}''"
    by code_simp
  have other: "toLowerCase ''k1000:{ }'' \<noteq> toLowerCase ''k1000:{}''"
    by code_simp
  have signed: "concat_hmac ''k'' (''1000'' @ '':'' @ ''{}'') = Some ''k1000:{}''"
    and mutated: "concat_hmac ''k'' (''1000'' @ '':'' @ ''{ }'') = Some ''k1000:{ }''"
    and h1: "''K1000:{}'' \<noteq> []"
    by (simp_all add: concat_hmac_def)
  from both [THEN conjunct1] sample_h1_field h1 signed digest
  have "isValid (verifyPaddleSignature production_env concat_hmac 1100
      (Some ''ts=1000;h1=K1000:{}'') ''{}'')"
    by blast
  moreover from both [THEN conjunct2, rule_format, of "''K1000:{}''" "''k1000:{}''" "''{ }''" "''k1000:{ }''"]
    sample_h1_field h1 signed mutated digest other
  have "verifyPaddleSignature production_env concat_hmac 1100 (Some ''ts=1000;h1=K1000:{}'') ''{ }''
       = \<lparr>isValid = False, reason = ''signature_mismatch''\<rparr>"
    by blast
  ultimately show ?thesis by simp
qed

text \<open>
  C3. In production, a header whose \<open>ts\<close> field parses to a timestamp more than 300
  seconds away from the clock, in either direction, never verifies, for every HMAC
  function, \<open>h1\<close> and body; and with a secret configured and a non-empty \<open>h1\<close> field
  present (the checks the code runs first) the reason is \<open>timestamp_too_old\<close>.
\<close>

theorem verify_stale:
  assumes "APP_ENVIRONMENT e = ''production''"
    and "header_field ''ts='' (split_on CHR '';'' header) = Some tsStr"
    and "parseInt10 tsStr = Some ts" and "\<bar>now - ts\<bar> > 300"
  shows "\<not> isValid (verifyPaddleSignature e hmac now (Some header) rawBody)
       \<and> (\<forall>secret h1.
             PADDLE_WEBHOOK_SIGNING_SECRET e = Some secret \<and> secret \<noteq> [] \<and>
             header_field ''h1='' (split_on CHR '';'' header) = Some h1 \<and> h1 \<noteq> [] \<longrightarrow>
             verifyPaddleSignature e hmac now (Some header) rawBody
               = \<lparr>isValid = False, reason = ''timestamp_too_old''\<rparr>)"
proof -
  from assms(2) have h: "header \<noteq> []" by (auto dest: header_field_nonempty)
  from assms(3) have t: "tsStr \<noteq> []" by (rule parseInt10_nonempty)
  from assms h t show ?thesis
    by (auto simp add: verifyPaddleSignature_def WEBHOOK_TIMESTAMP_TOLERANCE_SECONDS_def Let_def
        split: option.splits)
qed

theorem verify_stale_witness:
  "verifyPaddleSignature production_env concat_hmac 1301 (Some ''ts=1000;h1=K1000:{}'') ''{}''
     = \<lparr>isValid = False, reason = ''timestamp_too_old''\<rparr>
   \<and> verifyPaddleSignature production_env concat_hmac 699 (Some ''ts=1000;h1=K1000:{}'') ''{}''
     = \<lparr>isValid = False, reason = ''timestamp_too_old''\<rparr>"
proof -
  have late: "\<bar>1301 - 1000\<bar> > (300 :: int)" and early: "\<bar>699 - 1000\<bar> > (300 :: int)"
    and key: "''k'' \<noteq> []" and h1: "''K1000:{}'' \<noteq> []" by simp_all
  from verify_stale [OF sample_production(1) sample_ts_field sample_parseInt late,
      THEN conjunct2, rule_format, of "''k''" "''K1000:{}''" concat_hmac "''{}''"]
    sample_production(2) key sample_h1_field h1
  have 1: "verifyPaddleSignature production_env concat_hmac 1301 (Some ''ts=1000;h1=K1000:{}'') ''{}''
     = \<lparr>isValid = False, reason = ''timestamp_too_old''\<rparr>"
    by blast
  from verify_stale [OF sample_production(1) sample_ts_field sample_parseInt early,
      THEN conjunct2, rule_format, of "''k''" "''K1000:{}''" concat_hmac "''{}''"]
    sample_production(2) key sample_h1_field h1
  have 2: "verifyPaddleSignature production_env concat_hmac 699 (Some ''ts=1000;h1=K1000:{}'') ''{}''
     = \<lparr>isValid = False, reason = ''timestamp_too_old''\<rparr>"
    by blast
  from 1 2 show ?thesis by simp
qed

text \<open>
  C4, as the code has it. In production, with a secret configured and a non-empty
  header: when the \<open>ts\<close> field or the \<open>h1\<close> field is absent or empty, verification fails
  with \<open>invalid_signature_format\<close>; when both are present and the timestamp is not a
  parseable integer, it fails with \<open>invalid_timestamp\<close>.
\<close>

theorem verify_malformed_header:
  assumes "APP_ENVIRONMENT e = ''production''"
    and "PADDLE_WEBHOOK_SIGNING_SECRET e = Some secret" and "secret \<noteq> []"
    and "header \<noteq> []"
  shows "(falsy_str (header_field ''ts='' (split_on CHR '';'' header))
          \<or> falsy_str (header_field ''h1='' (split_on CHR '';'' header)) \<longrightarrow>
            verifyPaddleSignature e hmac now (Some header) rawBody
              = \<lparr>isValid = False, reason = ''invalid_signature_format''\<rparr>)
       \<and> (\<not> falsy_str (header_field ''ts='' (split_on CHR '';'' header))
          \<and> \<not> falsy_str (header_field ''h1='' (split_on CHR '';'' header))
          \<and> Option.bind (header_field ''ts='' (split_on CHR '';'' header)) parseInt10 = None \<longrightarrow>
            verifyPaddleSignature e hmac now (Some header) rawBody
              = \<lparr>isValid = False, reason = ''invalid_timestamp''\<rparr>)"
  using assms
  by (auto simp add: verifyPaddleSignature_def falsy_str_def Let_def split: option.splits)

theorem verify_malformed_header_witness:
  "verifyPaddleSignature production_env concat_hmac 1000 (Some ''h1=00ff'') ''{}''
     = \<lparr>isValid = False, reason = ''invalid_signature_format''\<rparr>
   \<and> verifyPaddleSignature production_env concat_hmac 1000 (Some ''ts=1000'') ''{}''
     = \<lparr>isValid = False, reason = ''invalid_signature_format''\<rparr>
   \<and> verifyPaddleSignature production_env concat_hmac 1000 (Some ''ts=soon;h1=00ff'') ''{}''
     = \<lparr>isValid = False, reason = ''invalid_timestamp''\<rparr>"
  using verify_malformed_header [of production_env "''k''" "''h1=00ff''" concat_hmac 1000 "''{}''"]
        verify_malformed_header [of production_env "''k''" "''ts=1000''" concat_hmac 1000 "''{}''"]
        verify_malformed_header [of production_env "''k''" "''ts=soon;h1=00ff''" concat_hmac 1000 "''{}''"]
  by (simp add: sample_production falsy_str_def header_field_def startsWith_def at_index_def
        parseInt10_def is_js_space_def is_digit_def)

theorem unparseable_timestamp_counterexample:
  "header_field ''ts='' (split_on CHR '';'' ''ts=soon;h1=00ff'') = Some ''soon''
   \<and> header_field ''h1='' (split_on CHR '';'' ''ts=soon;h1=00ff'') = Some ''00ff''
   \<and> parseInt10 ''soon'' = None
   \<and> reason (verifyPaddleSignature production_env concat_hmac 1000 (Some ''ts=soon;h1=00ff'') ''{}'')
       \<noteq> ''invalid_signature_format''"
  by (simp add: verifyPaddleSignature_def sample_production header_field_def startsWith_def
        at_index_def parseInt10_def is_js_space_def is_digit_def)

section \<open>Properties of payload validation\<close>

text \<open>
  C5, as the code has it. For every payload other than \<open>null\<close> the validator returns a
  result whose error list holds exactly the violated rules, each once: a missing
  \<open>event_type\<close>, a missing \<open>event_id\<close>, a missing \<open>data\<close>, and, when \<open>data\<close> is
  present, a missing \<open>data.custom_data.userId\<close>. A payload without \<open>data\<close> is reported as
  \<open>Missing data object\<close> and not as a missing \<open>userId\<close>. The result is valid exactly
  when the list is empty.
\<close>

theorem validate_lists_every_violation:
  assumes "payload \<noteq> JNull"
  shows "\<exists>v. validateWebhookPayload payload = Inr v
     \<and> (''Missing event_type'' \<in> set (v_errors v) \<longleftrightarrow> \<not> truthy (get_prop payload ''event_type''))
     \<and> (''Missing event_id'' \<in> set (v_errors v) \<longleftrightarrow> \<not> truthy (get_prop payload ''event_id''))
     \<and> (''Missing data object'' \<in> set (v_errors v) \<longleftrightarrow> \<not> truthy (get_prop payload ''data''))
     \<and> (''Missing userId in custom_data'' \<in> set (v_errors v) \<longleftrightarrow>
            truthy (get_prop payload ''data'')
            \<and> \<not> truthy (opt_member (opt_member (get_prop payload ''data'') ''custom_data'') ''userId''))
     \<and> set (v_errors v) \<subseteq> {''Missing event_type'', ''Missing event_id'', ''Missing data object'',
                               ''Missing userId in custom_data''}
     \<and> distinct (v_errors v)
     \<and> (v_isValid v \<longleftrightarrow> v_errors v = [])"
  using assms
  by (cases "get_prop payload ''data''")
     (auto simp add: validateWebhookPayload_def Let_def opt_member_def split: json.splits)

theorem validate_lists_every_violation_witness:
  "event_without_user \<noteq> JNull
   \<and> validateWebhookPayload event_without_user
       = Inr \<lparr>v_isValid = False,
              v_errors = [''Missing event_type'', ''Missing userId in custom_data'']\<rparr>"
  using validate_lists_every_violation [of event_without_user]
  by (simp add: validateWebhookPayload_def event_without_user_def opt_member_def)

theorem missing_data_counterexample:
  "\<not> truthy (opt_member (opt_member (get_prop event_without_data ''data'') ''custom_data'') ''userId'')
   \<and> validateWebhookPayload event_without_data
       = Inr \<lparr>v_isValid = False, v_errors = [''Missing data object'']\<rparr>"
  by (simp add: validateWebhookPayload_def event_without_data_def opt_member_def)

section \<open>Properties of the store and of the profile upsert\<close>

lemma next_fault_tables:
  "next_fault s = (f, s') \<Longrightarrow>
     profiles s' = profiles s \<and> subscription_plans s' = subscription_plans s
     \<and> user_subscriptions s' = user_subscriptions s"
  by (auto simp: next_fault_def split: list.splits)

lemma select_profile_tables:
  "select_profile s uid = (r, s') \<Longrightarrow>
     profiles s' = profiles s \<and> subscription_plans s' = subscription_plans s
     \<and> user_subscriptions s' = user_subscriptions s"
  by (auto simp: select_profile_def split: prod.splits option.splits dest: next_fault_tables)

lemma validateUser_tables:
  "validateUser s uid = (uv, s') \<Longrightarrow>
     profiles s' = profiles s \<and> subscription_plans s' = subscription_plans s
     \<and> user_subscriptions s' = user_subscriptions s"
  by (auto simp: validateUser_def split: prod.splits sum.splits if_splits dest: select_profile_tables)

lemma select_plan_tables:
  "select_plan s pid = (r, s') \<Longrightarrow>
     profiles s' = profiles s \<and> subscription_plans s' = subscription_plans s
     \<and> user_subscriptions s' = user_subscriptions s"
  by (auto simp: select_plan_def split: prod.splits option.splits list.splits dest: next_fault_tables)

lemma select_plan_found:
  "select_plan s pid = (Inr p, s') \<Longrightarrow> p \<in> set (subscription_plans s) \<and> plan_matches pid p"
proof -
  assume a: "select_plan s pid = (Inr p, s')"
  then obtain s1 where nf: "next_fault s = (None, s1)" and f: "filter (plan_matches pid) (subscription_plans s1) = [p]"
    by (auto simp: select_plan_def split: prod.splits option.splits list.splits)
  from nf have "subscription_plans s1 = subscription_plans s" by (auto dest: next_fault_tables)
  with f have "p \<in> set (filter (plan_matches pid) (subscription_plans s))" by simp
  then show ?thesis by simp
qed

lemma update_profile_frame:
  "update_profile s uid data = (r, s') \<Longrightarrow>
     subscription_plans s' = subscription_plans s \<and> user_subscriptions s' = user_subscriptions s
     \<and> (case r of
           Inl err \<Rightarrow> profiles s' = profiles s
                       \<and> (code err = ''PGRST116'' \<and> pending_faults s = [] \<longrightarrow> profiles s (filter_value uid) = None)
         | Inr new \<Rightarrow> \<exists>old. profiles s (filter_value uid) = Some old \<and> new = old ++ data
                       \<and> profiles s' = (profiles s)(filter_value uid \<mapsto> new))"
  by (auto simp: update_profile_def next_fault_def split: prod.splits option.splits list.splits)

lemma insert_profile_frame:
  "insert_profile s data = (r, s') \<Longrightarrow>
     subscription_plans s' = subscription_plans s \<and> user_subscriptions s' = user_subscriptions s
     \<and> (case r of
           Inl err \<Rightarrow> profiles s' = profiles s
         | Inr new \<Rightarrow> \<exists>key. data ''user_id'' = Some key \<and> new = data
                       \<and> profiles s' = (profiles s)(key \<mapsto> new))"
  by (auto simp: insert_profile_def next_fault_def split: prod.splits option.splits list.splits if_splits)

lemma to_row_Cons:
  "to_row ((k, v) # kvs) = (case v of None \<Rightarrow> to_row kvs | Some x \<Rightarrow> (to_row kvs)(k \<mapsto> x))"
  by (cases v) (simp_all add: to_row_def List.map_filter_simps)

lemma to_row_Nil: "to_row [] = Map.empty"
  by (simp add: to_row_def List.map_filter_simps)

lemma to_row_append:
  "to_row (xs @ ys) = to_row ys ++ to_row xs"
  by (induction xs) (auto simp: to_row_Cons to_row_Nil split: option.splits)

lemma or_else_default: "\<exists>x. or_else a (Some d) = Some x"
  by (cases a) (auto simp: or_else_def)

lemma profileData_columns:
  "to_row (profileData ts uid cd sd) ''user_id'' = uid"
  "to_row (profileData ts uid cd sd) ''email''
     = or_else (get_prop cd ''email'') (Some (JStr ''unknown@example.com''))"
  "to_row (profileData ts uid cd sd) ''full_name''
     = or_else (get_prop cd ''full_name'') (Some (JStr ''Unknown User''))"
  "to_row (profileData ts uid cd sd) ''subscription_status''
     = or_else (sd_status sd) (Some (JStr ''active''))"
  "to_row (profileData ts uid cd sd) ''subscription_plan''
     = Some (JStr (if sd_planName sd = [] then ''unknown'' else sd_planName sd))"
  "to_row (profileData ts uid cd sd) ''created_at'' = None"
  using or_else_default [of "get_prop cd ''email''" "JStr ''unknown@example.com''"]
        or_else_default [of "get_prop cd ''full_name''" "JStr ''Unknown User''"]
        or_else_default [of "sd_status sd" "JStr ''active''"]
  by (auto simp: profileData_def to_row_Cons to_row_Nil split: option.splits)

lemma upsertUserProfile_frame:
  assumes "upsertUserProfile ts s uid cdo sd = (r, s')"
  shows "subscription_plans s' = subscription_plans s"
    and "user_subscriptions s' = user_subscriptions s"
    and "\<not> ur_success r \<Longrightarrow> profiles s' = profiles s"
    and "ur_success r \<Longrightarrow> \<exists>cd new. cdo = Some cd \<and> cd \<noteq> JNull
            \<and> profiles s' = (profiles s)(filter_value uid \<mapsto> new)
            \<and> (\<forall>c \<in> {''email'', ''full_name'', ''subscription_status'', ''subscription_plan''}.
                  new c = to_row (profileData ts uid cd sd) c)"
proof -
  show "subscription_plans s' = subscription_plans s" "user_subscriptions s' = user_subscriptions s"
     "\<not> ur_success r \<Longrightarrow> profiles s' = profiles s"
    using assms
    by (auto simp: upsertUserProfile_def Let_def split: option.splits if_splits prod.splits sum.splits
        dest!: update_profile_frame insert_profile_frame)
  show "\<exists>cd new. cdo = Some cd \<and> cd \<noteq> JNull
            \<and> profiles s' = (profiles s)(filter_value uid \<mapsto> new)
            \<and> (\<forall>c \<in> {''email'', ''full_name'', ''subscription_status'', ''subscription_plan''}.
                  new c = to_row (profileData ts uid cd sd) c)" if ok: "ur_success r"
  proof -
    from assms ok obtain cd where cd: "cdo = Some cd" "cd \<noteq> JNull"
      by (auto simp: upsertUserProfile_def Let_def split: option.splits if_splits)
    let ?pd = "profileData ts uid cd sd"
    obtain ur s1 where up: "update_profile s uid (to_row ?pd) = (ur, s1)" by force
    show ?thesis
    proof (cases ur)
      case (Inr new)
      with assms cd up have "s' = s1" by (simp add: upsertUserProfile_def Let_def)
      moreover from update_profile_frame [OF up] Inr obtain old where
        "profiles s (filter_value uid) = Some old" "new = old ++ to_row ?pd"
        "profiles s1 = (profiles s)(filter_value uid \<mapsto> new)" by auto
      ultimately show ?thesis using cd profileData_columns [of ts uid cd sd]
        or_else_default [of "get_prop cd ''email''" "JStr ''unknown@example.com''"]
        or_else_default [of "get_prop cd ''full_name''" "JStr ''Unknown User''"]
        or_else_default [of "sd_status sd" "JStr ''active''"]
        by (auto simp: map_add_def split: option.splits)
    next
      case (Inl err)
      with assms cd up ok have pg: "code err = ''PGRST116''"
        by (auto simp: upsertUserProfile_def Let_def split: if_splits)
      obtain ir s2 where ins: "insert_profile s1 (to_row (?pd @ [(''created_at'', Some (JStr ts))])) = (ir, s2)"
        by force
      with assms cd up ok Inl pg obtain new where new: "ir = Inr new" and s': "s' = s2"
        by (auto simp: upsertUserProfile_def Let_def split: sum.splits)
      from update_profile_frame [OF up] Inl have p1: "profiles s1 = profiles s" by simp
      from insert_profile_frame [OF ins] new obtain key where
        key: "to_row (?pd @ [(''created_at'', Some (JStr ts))]) ''user_id'' = Some key"
        and n: "new = to_row (?pd @ [(''created_at'', Some (JStr ts))])"
        and p2: "profiles s2 = (profiles s1)(key \<mapsto> new)" by auto
      from key have "uid = Some key"
        using profileData_columns(1) [of ts uid cd sd]
        by (simp add: to_row_append to_row_Cons to_row_Nil map_add_def split: option.splits)
      then have "filter_value uid = key" by (simp add: filter_value_def)
      with p1 p2 s' cd n show ?thesis
        by (auto simp: to_row_append to_row_Cons to_row_Nil map_add_def split: option.splits)
    qed
  qed
qed

lemma truthy_not_null: "truthy (Some x) \<Longrightarrow> x \<noteq> JNull"
  by auto

lemma member_Some: "x \<noteq> JNull \<Longrightarrow> member (Some x) k = Inr (get_prop x k)"
  by (cases x) (simp_all add: member_def)

lemma opt_member_Some: "x \<noteq> JNull \<Longrightarrow> opt_member (Some x) k = get_prop x k"
  by (cases x) (simp_all add: opt_member_def)

lemma opt_member_truthy:
  "truthy (opt_member v k) \<Longrightarrow> \<exists>x. v = Some x \<and> x \<noteq> JNull \<and> truthy (get_prop x k)"
  by (cases v) (auto simp: opt_member_def split: json.splits)

lemma validated_payload:
  assumes "validateWebhookPayload payload = Inr v" and "v_isValid v"
  obtains data cd uid where
    "payload \<noteq> JNull" and "get_prop payload ''data'' = Some data" and "data \<noteq> JNull"
    and "get_prop data ''custom_data'' = Some cd" and "cd \<noteq> JNull" and "truthy (Some cd)"
    and "get_prop cd ''userId'' = Some uid" and "truthy (Some uid)" and "uid \<noteq> JNull"
proof -
  from assms have nn: "payload \<noteq> JNull"
    by (auto simp: validateWebhookPayload_def split: if_splits)
  with assms have td: "truthy (get_prop payload ''data'')"
    by (auto simp: validateWebhookPayload_def Let_def split: if_splits)
  then obtain data where d: "get_prop payload ''data'' = Some data" "data \<noteq> JNull"
    by (cases "get_prop payload ''data''") (auto dest: truthy_not_null)
  with assms nn td have tu: "truthy (opt_member (get_prop data ''custom_data'') ''userId'')"
    by (auto simp: validateWebhookPayload_def Let_def split: if_splits)
  then obtain cd where c: "get_prop data ''custom_data'' = Some cd" "cd \<noteq> JNull"
    and tu': "truthy (get_prop cd ''userId'')"
    by (auto dest: opt_member_truthy)
  then obtain uid where u: "get_prop cd ''userId'' = Some uid" "uid \<noteq> JNull"
    by (cases "get_prop cd ''userId''") (auto dest: truthy_not_null)
  from u have "truthy (Some cd)" by (cases cd) (auto split: if_splits)
  with nn d c u tu' show ?thesis using that by auto
qed

lemma or_else_truthy: "truthy a \<Longrightarrow> or_else a b = a"
  by (simp add: or_else_def)

lemma subscription_product_id_first:
  "truthy (subscription_product_id subscription) \<longleftrightarrow>
     find truthy [opt_member (opt_member (get_prop subscription ''items'') ''0'') ''product_id'',
                  opt_member (opt_member (get_prop subscription ''items'') ''0'') ''price_id'',
                  get_prop subscription ''product_id''] \<noteq> None"
  "truthy (subscription_product_id subscription) \<Longrightarrow>
     find truthy [opt_member (opt_member (get_prop subscription ''items'') ''0'') ''product_id'',
                  opt_member (opt_member (get_prop subscription ''items'') ''0'') ''price_id'',
                  get_prop subscription ''product_id''] = Some (subscription_product_id subscription)"
  by (auto simp: subscription_product_id_def or_else_def Let_def split: if_splits)

lemma upsertSubscription_frame:
  "upsertSubscription ts s sr = (r, s') \<Longrightarrow>
     profiles s' = profiles s \<and> subscription_plans s' = subscription_plans s"
  by (auto simp: upsertSubscription_def upsert_subscription_def next_fault_def
      split: prod.splits sum.splits option.splits list.splits)

lemma select_plan_none:
  "\<forall>p \<in> set (subscription_plans s). \<not> plan_matches pid p \<Longrightarrow> \<exists>err s'. select_plan s pid = (Inl err, s')"
proof -
  assume a: "\<forall>p \<in> set (subscription_plans s). \<not> plan_matches pid p"
  obtain r s' where sp: "select_plan s pid = (r, s')" by force
  show ?thesis
  proof (cases r)
    case (Inr p)
    with sp select_plan_found [of s pid p s'] a show ?thesis by auto
  next
    case (Inl err)
    with sp show ?thesis by auto
  qed
qed

lemma handleSubscriptionEvent_unfold:
  assumes "payload \<noteq> JNull" and "get_prop payload ''data'' = Some subscription" and "subscription \<noteq> JNull"
    and "get_prop subscription ''custom_data'' = Some cd" and "truthy (Some cd)" and "cd \<noteq> JNull"
    and "validateUser s (get_prop cd ''userId'') = (uv, s1)" and "uv_isValid uv"
  shows "handleSubscriptionEvent rt s payload =
     (let productId = subscription_product_id subscription
      in if \<not> truthy productId
         then (Inr \<lparr>success = False, message = Product_id_missing\<rparr>, s1)
         else
           (case select_plan s1 productId of
              (Inl planError, s2) \<Rightarrow>
                (Inr \<lparr>success = False, message = Plan_not_found productId\<rparr>, s2)
            | (Inr plan, s2) \<Rightarrow>
                (case upsertUserProfile (rt_iso rt) s2 (get_prop cd ''userId'') (Some cd)
                        \<lparr>sd_status = get_prop subscription ''status'',
                         sd_planName = toLowerCase (plan_name plan),
                         sd_customerId = get_prop subscription ''customer_id''\<rparr> of
                   (profileResult, s3) \<Rightarrow>
                     (if \<not> ur_success profileResult
                      then (Inr \<lparr>success = False,
                                 message = Profile_update_failed (ur_error profileResult)\<rparr>, s3)
                      else
                        (case upsertSubscription (rt_iso rt) s3
                                \<lparr>sr_userId = get_prop cd ''userId'',
                                 sr_planId = Some (JStr (plan_id plan)),
                                 sr_paddleSubscriptionId = get_prop subscription ''id'',
                                 sr_status = get_prop subscription ''status'',
                                 sr_currentPeriodStart =
                                   opt_member (get_prop subscription ''current_billing_period'') ''starts_at'',
                                 sr_currentPeriodEnd =
                                   opt_member (get_prop subscription ''current_billing_period'') ''ends_at''\<rparr> of
                           (subscriptionResult, s4) \<Rightarrow>
                             (if \<not> ur_success subscriptionResult
                              then (Inr \<lparr>success = False,
                                         message = Subscription_update_failed (ur_error subscriptionResult)\<rparr>, s4)
                              else (Inr \<lparr>success = True,
                                         message = Subscription_processed
                                           (get_prop subscription ''status'') (plan_name plan)\<rparr>, s4)))))))"
  using assms
  by (simp add: handleSubscriptionEvent_def member_Some opt_member_Some or_else_truthy Let_def
        cong: prod.case_cong sum.case_cong if_cong)

lemma validateUser_no_fault:
  "pending_faults s = [] \<Longrightarrow> validateUser s uid = (uv, s1) \<Longrightarrow> uv_isValid uv \<and> s1 = s"
  by (auto simp: validateUser_def select_profile_def next_fault_def no_rows_def
      split: option.splits)

lemma select_plan_no_fault:
  "pending_faults s = [] \<Longrightarrow> filter (plan_matches pid) (subscription_plans s) = [p] \<Longrightarrow>
     select_plan s pid = (Inr p, s)"
  by (simp add: select_plan_def next_fault_def)

lemma upsertUserProfile_no_fault:
  assumes "pending_faults s = []" and "uid \<noteq> JNull" and "cd \<noteq> JNull"
  shows "\<exists>r s'. upsertUserProfile ts s (Some uid) (Some cd) sd = (r, s') \<and> ur_success r
           \<and> pending_faults s' = []"
proof (cases "profiles s uid")
  case None
  with assms show ?thesis
    using profileData_columns(1) [of ts "Some uid" cd sd]
    by (simp add: upsertUserProfile_def update_profile_def insert_profile_def next_fault_def
        filter_value_def no_rows_def Let_def to_row_append map_add_def to_row_Cons to_row_Nil)
next
  case (Some old)
  with assms show ?thesis
    by (simp add: upsertUserProfile_def update_profile_def next_fault_def filter_value_def Let_def)
qed

lemma upsertSubscription_no_fault:
  assumes "pending_faults s = []"
  shows "\<exists>r s'. upsertSubscription ts s sr = (r, s') \<and> ur_success r \<and> pending_faults s' = []"
  using assms
  by (auto simp: upsertSubscription_def upsert_subscription_def next_fault_def
      split: option.splits)

lemma invalid_user:
  assumes "payload \<noteq> JNull" and "get_prop payload ''data'' = Some d" and "d \<noteq> JNull"
    and "get_prop d ''custom_data'' = Some cd" and "truthy (Some cd)" and "cd \<noteq> JNull"
    and "validateUser s (get_prop cd ''userId'') = (uv, s1)" and "\<not> uv_isValid uv"
  shows "handleSubscriptionEvent rt s payload
           = (Inr \<lparr>success = False, message = User_validation_failed (uv_error uv)\<rparr>, s1)"
    and "handleTransactionCompleted rt s payload
           = (Inr \<lparr>success = False, message = User_validation_failed (uv_error uv)\<rparr>, s1)"
    and "handleSubscriptionCanceled rt s payload
           = (Inr \<lparr>success = False, message = User_validation_failed (uv_error uv)\<rparr>, s1)"
  using assms
  by (simp_all add: handleSubscriptionEvent_def handleTransactionCompleted_def
        handleSubscriptionCanceled_def member_Some opt_member_Some or_else_truthy Let_def)


section \<open>Subscription created and updated\<close>

text \<open>
  C6. For a validated \<open>subscription.created\<close> or \<open>subscription.updated\<close> event whose
  user validation passed: the product identifier is the first truthy one of
  \<open>items[0].product_id\<close>, \<open>items[0].price_id\<close> and the top-level \<open>product_id\<close>; when none
  is, the handler fails with the product-id-missing message; when no plan matches the
  identifier it fails with the plan-not-found message; in both cases no table changes.
  Whenever the handler succeeds, a matching plan exists and the profile of the user
  holds that plan's name in lower case (\<open>unknown\<close> for an empty name). With a store
  that answers every call and exactly one matching plan, the handler does succeed.
\<close>

theorem subscription_event_sync:
  assumes valid: "validateWebhookPayload payload = Inr v" "v_isValid v"
    and data: "get_prop payload ''data'' = Some subscription"
    and user: "validateUser s (opt_member (get_prop subscription ''custom_data'') ''userId'') = (uv, s1)"
              "uv_isValid uv"
    and run: "handleSubscriptionEvent rt s payload = (out, s')"
  shows "(truthy (subscription_product_id subscription) \<longrightarrow>
            find truthy [opt_member (opt_member (get_prop subscription ''items'') ''0'') ''product_id'',
                         opt_member (opt_member (get_prop subscription ''items'') ''0'') ''price_id'',
                         get_prop subscription ''product_id'']
              = Some (subscription_product_id subscription))
       \<and> (\<not> truthy (subscription_product_id subscription) \<longrightarrow>
            find truthy [opt_member (opt_member (get_prop subscription ''items'') ''0'') ''product_id'',
                         opt_member (opt_member (get_prop subscription ''items'') ''0'') ''price_id'',
                         get_prop subscription ''product_id''] = None
            \<and> out = Inr \<lparr>success = False, message = Product_id_missing\<rparr>
            \<and> profiles s' = profiles s \<and> user_subscriptions s' = user_subscriptions s)
       \<and> (truthy (subscription_product_id subscription)
            \<and> (\<forall>p \<in> set (subscription_plans s). \<not> plan_matches (subscription_product_id subscription) p) \<longrightarrow>
            out = Inr \<lparr>success = False, message = Plan_not_found (subscription_product_id subscription)\<rparr>
            \<and> profiles s' = profiles s \<and> user_subscriptions s' = user_subscriptions s)
       \<and> (\<forall>r. out = Inr r \<and> success r \<longrightarrow>
            (\<exists>p row. p \<in> set (subscription_plans s)
               \<and> plan_matches (subscription_product_id subscription) p
               \<and> message r = Subscription_processed (get_prop subscription ''status'') (plan_name p)
               \<and> profiles s' (filter_value (opt_member (get_prop subscription ''custom_data'') ''userId''))
                    = Some row
               \<and> row ''subscription_plan''
                    = Some (JStr (if toLowerCase (plan_name p) = [] then ''unknown''
                                  else toLowerCase (plan_name p)))))
       \<and> (\<forall>p. pending_faults s = [] \<and> truthy (subscription_product_id subscription)
            \<and> filter (plan_matches (subscription_product_id subscription)) (subscription_plans s) = [p] \<longrightarrow>
            out = Inr \<lparr>success = True,
                       message = Subscription_processed (get_prop subscription ''status'') (plan_name p)\<rparr>)"
proof -
  let ?pid = "subscription_product_id subscription"
  from valid data obtain cd uid where
    nn: "payload \<noteq> JNull" "subscription \<noteq> JNull"
    and cd: "get_prop subscription ''custom_data'' = Some cd" "cd \<noteq> JNull" "truthy (Some cd)"
    and uid: "get_prop cd ''userId'' = Some uid" "uid \<noteq> JNull"
    by (auto elim!: validated_payload)
  from cd have ou: "opt_member (get_prop subscription ''custom_data'') ''userId'' = get_prop cd ''userId''"
    by (simp add: opt_member_Some)
  note unfold = handleSubscriptionEvent_unfold [OF nn(1) data nn(2) cd(1) cd(3) cd(2)
      user(1) [unfolded ou] user(2), of rt]
  from validateUser_tables [OF user(1)]
  have t1: "profiles s1 = profiles s" "subscription_plans s1 = subscription_plans s"
    "user_subscriptions s1 = user_subscriptions s" by simp_all
  have first: "truthy ?pid \<longrightarrow>
            find truthy [opt_member (opt_member (get_prop subscription ''items'') ''0'') ''product_id'',
                         opt_member (opt_member (get_prop subscription ''items'') ''0'') ''price_id'',
                         get_prop subscription ''product_id''] = Some ?pid"
    using subscription_product_id_first(2) by blast
  have missing: "find truthy [opt_member (opt_member (get_prop subscription ''items'') ''0'') ''product_id'',
                         opt_member (opt_member (get_prop subscription ''items'') ''0'') ''price_id'',
                         get_prop subscription ''product_id''] = None
            \<and> out = Inr \<lparr>success = False, message = Product_id_missing\<rparr>
            \<and> profiles s' = profiles s \<and> user_subscriptions s' = user_subscriptions s"
    if "\<not> truthy ?pid"
    using that run unfold t1 subscription_product_id_first(1) [of subscription]
    by (auto simp: Let_def)
  have not_found: "out = Inr \<lparr>success = False, message = Plan_not_found ?pid\<rparr>
            \<and> profiles s' = profiles s \<and> user_subscriptions s' = user_subscriptions s"
    if tp: "truthy ?pid" and none: "\<forall>p \<in> set (subscription_plans s). \<not> plan_matches ?pid p"
  proof -
    from none t1 obtain err s2 where sp: "select_plan s1 ?pid = (Inl err, s2)"
      using select_plan_none [of s1 ?pid] by auto
    from select_plan_tables [OF sp] t1 run unfold tp sp show ?thesis
      by (simp add: Let_def)
  qed
  have on_success: "\<exists>p row. p \<in> set (subscription_plans s) \<and> plan_matches ?pid p
               \<and> message r = Subscription_processed (get_prop subscription ''status'') (plan_name p)
               \<and> profiles s' (filter_value (opt_member (get_prop subscription ''custom_data'') ''userId''))
                    = Some row
               \<and> row ''subscription_plan''
                    = Some (JStr (if toLowerCase (plan_name p) = [] then ''unknown''
                                  else toLowerCase (plan_name p)))"
    if out: "out = Inr r" and ok: "success r" for r
  proof -
    from out ok run unfold have tp: "truthy ?pid" by (auto simp: Let_def split: if_splits)
    obtain pr s2 where sp: "select_plan s1 ?pid = (pr, s2)" by force
    with out ok run unfold tp obtain p where p: "pr = Inr p"
      by (cases pr) (auto simp: Let_def)
    let ?sd = "\<lparr>sd_status = get_prop subscription ''status'', sd_planName = toLowerCase (plan_name p),
                sd_customerId = get_prop subscription ''customer_id''\<rparr>"
    obtain ur s3 where up: "upsertUserProfile (rt_iso rt) s2 (get_prop cd ''userId'') (Some cd) ?sd = (ur, s3)"
      by force
    with out ok run unfold tp sp p have uok: "ur_success ur"
      by (auto simp: Let_def split: if_splits)
    obtain sr s4 where us: "upsertSubscription (rt_iso rt) s3
          \<lparr>sr_userId = get_prop cd ''userId'', sr_planId = Some (JStr (plan_id p)),
           sr_paddleSubscriptionId = get_prop subscription ''id'',
           sr_status = get_prop subscription ''status'',
           sr_currentPeriodStart = opt_member (get_prop subscription ''current_billing_period'') ''starts_at'',
           sr_currentPeriodEnd = opt_member (get_prop subscription ''current_billing_period'') ''ends_at''\<rparr>
          = (sr, s4)" by force
    with out ok run unfold tp sp p up uok have fin: "s' = s4"
      "message r = Subscription_processed (get_prop subscription ''status'') (plan_name p)"
      by (auto simp: Let_def split: if_splits)
    from select_plan_found [OF sp [unfolded p]] t1
    have pin: "p \<in> set (subscription_plans s)" "plan_matches ?pid p" by simp_all
    from upsertUserProfile_frame(4) [OF up uok] obtain new where
      new: "profiles s3 = (profiles s2)(filter_value (get_prop cd ''userId'') \<mapsto> new)"
        "new ''subscription_plan'' = to_row (profileData (rt_iso rt) (get_prop cd ''userId'') cd ?sd) ''subscription_plan''"
      by auto
    from upsertSubscription_frame [OF us] have "profiles s4 = profiles s3" by simp
    with new fin pin ou show ?thesis
      by (auto simp: profileData_columns)
  qed
  have reachable: "out = Inr \<lparr>success = True,
                       message = Subscription_processed (get_prop subscription ''status'') (plan_name p)\<rparr>"
    if nf: "pending_faults s = []" and tp: "truthy ?pid" and one: "filter (plan_matches ?pid) (subscription_plans s) = [p]" for p
  proof -
    from validateUser_no_fault [OF nf user(1)] have s1: "s1 = s" by simp
    from select_plan_no_fault [OF nf one] s1 have sp: "select_plan s1 ?pid = (Inr p, s)" by simp
    let ?sd = "\<lparr>sd_status = get_prop subscription ''status'', sd_planName = toLowerCase (plan_name p),
                sd_customerId = get_prop subscription ''customer_id''\<rparr>"
    from upsertUserProfile_no_fault [OF nf uid(2) cd(2), of "rt_iso rt" ?sd] uid(1)
    obtain ur s3 where up: "upsertUserProfile (rt_iso rt) s (get_prop cd ''userId'') (Some cd) ?sd = (ur, s3)"
      "ur_success ur" "pending_faults s3 = []" by auto
    from upsertSubscription_no_fault [OF up(3)]
    obtain sr s4 where us: "upsertSubscription (rt_iso rt) s3
          \<lparr>sr_userId = get_prop cd ''userId'', sr_planId = Some (JStr (plan_id p)),
           sr_paddleSubscriptionId = get_prop subscription ''id'',
           sr_status = get_prop subscription ''status'',
           sr_currentPeriodStart = opt_member (get_prop subscription ''current_billing_period'') ''starts_at'',
           sr_currentPeriodEnd = opt_member (get_prop subscription ''current_billing_period'') ''ends_at''\<rparr>
          = (sr, s4)" "ur_success sr" by blast
    from run unfold tp sp up us show ?thesis by (simp add: Let_def)
  qed
  from first missing not_found on_success reachable show ?thesis by blast
qed

lemma sample_user:
  "validateUser sample_store (Some (JStr ''user_1''))
     = (\<lparr>uv_isValid = True, uv_profile = Some stored_profile, uv_error = None\<rparr>, sample_store)"
  by (simp add: validateUser_def select_profile_def next_fault_def sample_store_def filter_value_def)

lemma sample_valid:
  assumes "t \<noteq> []"
  shows "validateWebhookPayload (event t known_subscription) = Inr \<lparr>v_isValid = True, v_errors = []\<rparr>"
  "validateWebhookPayload (event t unknown_subscription) = Inr \<lparr>v_isValid = True, v_errors = []\<rparr>"
  "validateWebhookPayload (event t itemless_subscription) = Inr \<lparr>v_isValid = True, v_errors = []\<rparr>"
  using assms
  by (simp_all add: validateWebhookPayload_def event_def known_subscription_def unknown_subscription_def
      itemless_subscription_def user_1_data_def opt_member_def)

lemma sample_user_id:
  "opt_member (get_prop known_subscription ''custom_data'') ''userId'' = Some (JStr ''user_1'')"
  "opt_member (get_prop unknown_subscription ''custom_data'') ''userId'' = Some (JStr ''user_1'')"
  "opt_member (get_prop itemless_subscription ''custom_data'') ''userId'' = Some (JStr ''user_1'')"
  by (simp_all add: known_subscription_def unknown_subscription_def itemless_subscription_def
      user_1_data_def opt_member_def)

lemma sample_product_id:
  "subscription_product_id known_subscription = Some (JStr ''pro_premium_001'')"
  "subscription_product_id unknown_subscription = Some (JStr ''pri_invalid_product_id'')"
  "subscription_product_id itemless_subscription = None"
  by (simp_all add: subscription_product_id_def known_subscription_def unknown_subscription_def
      itemless_subscription_def opt_member_def or_else_def at_index_def)

lemma sample_lower: "toLowerCase ''Premium'' = ''premium''"
  by code_simp

theorem subscription_event_sync_witness:
  "fst (handleSubscriptionEvent sample_runtime sample_store (event ''subscription.created'' itemless_subscription))
     = Inr \<lparr>success = False, message = Product_id_missing\<rparr>
   \<and> fst (handleSubscriptionEvent sample_runtime sample_store (event ''subscription.created'' unknown_subscription))
     = Inr \<lparr>success = False, message = Plan_not_found (Some (JStr ''pri_invalid_product_id''))\<rparr>
   \<and> fst (handleSubscriptionEvent sample_runtime sample_store (event ''subscription.updated'' known_subscription))
     = Inr \<lparr>success = True, message = Subscription_processed (Some (JStr ''active'')) ''Premium''\<rparr>
   \<and> (\<exists>row. profiles (snd (handleSubscriptionEvent sample_runtime sample_store
                               (event ''subscription.updated'' known_subscription))) (JStr ''user_1'')
               = Some row
            \<and> row ''subscription_plan'' = Some (JStr ''premium''))"
proof -
  have data: "get_prop (event t d) ''data'' = Some d" for t d
    by (simp add: event_def)
  have t: "''subscription.created'' \<noteq> []" "''subscription.updated'' \<noteq> []"
    by simp_all
  have v: "v_isValid \<lparr>v_isValid = True, v_errors = []\<rparr>"
    and u: "uv_isValid \<lparr>uv_isValid = True, uv_profile = Some stored_profile, uv_error = None\<rparr>"
    by simp_all
  note a = subscription_event_sync [where rt = sample_runtime
      and payload = "event ''subscription.created'' itemless_subscription",
      OF sample_valid(3) [OF t(1)] v data sample_user [folded sample_user_id(3)] u surjective_pairing]
  note b = subscription_event_sync [where rt = sample_runtime
      and payload = "event ''subscription.created'' unknown_subscription",
      OF sample_valid(2) [OF t(1)] v data sample_user [folded sample_user_id(2)] u surjective_pairing]
  note c = subscription_event_sync [where rt = sample_runtime
      and payload = "event ''subscription.updated'' known_subscription",
      OF sample_valid(1) [OF t(2)] v data sample_user [folded sample_user_id(1)] u surjective_pairing]
  have plans: "subscription_plans sample_store = [premium_plan]" "pending_faults sample_store = []"
    by (simp_all add: sample_store_def)
  have m: "plan_matches (Some (JStr ''pro_premium_001'')) premium_plan"
    "\<not> plan_matches (Some (JStr ''pri_invalid_product_id'')) premium_plan"
    by (simp_all add: plan_matches_def premium_plan_def filter_value_def)
  have 1: "fst (handleSubscriptionEvent sample_runtime sample_store (event ''subscription.created'' itemless_subscription))
     = Inr \<lparr>success = False, message = Product_id_missing\<rparr>"
    using a [THEN conjunct2, THEN conjunct1] by (simp add: sample_product_id)
  have 2: "fst (handleSubscriptionEvent sample_runtime sample_store (event ''subscription.created'' unknown_subscription))
     = Inr \<lparr>success = False, message = Plan_not_found (Some (JStr ''pri_invalid_product_id''))\<rparr>"
    using b [THEN conjunct2, THEN conjunct2, THEN conjunct1] by (simp add: sample_product_id plans m)
  have 3: "fst (handleSubscriptionEvent sample_runtime sample_store (event ''subscription.updated'' known_subscription))
     = Inr \<lparr>success = True, message = Subscription_processed (Some (JStr ''active'')) ''Premium''\<rparr>"
    using c [THEN conjunct2, THEN conjunct2, THEN conjunct2, THEN conjunct2, rule_format, of premium_plan]
    by (simp add: sample_product_id plans m) (simp add: known_subscription_def premium_plan_def)
  have 4: "\<exists>row. profiles (snd (handleSubscriptionEvent sample_runtime sample_store
                               (event ''subscription.updated'' known_subscription))) (JStr ''user_1'')
               = Some row
            \<and> row ''subscription_plan'' = Some (JStr ''premium'')"
  proof -
    from c [THEN conjunct2, THEN conjunct2, THEN conjunct2, THEN conjunct1, rule_format, OF conjI, OF 3]
    obtain p row where "p \<in> set (subscription_plans sample_store)"
      and "profiles (snd (handleSubscriptionEvent sample_runtime sample_store
             (event ''subscription.updated'' known_subscription)))
             (filter_value (opt_member (get_prop known_subscription ''custom_data'') ''userId'')) = Some row"
      and "row ''subscription_plan'' = Some (JStr (if toLowerCase (plan_name p) = [] then ''unknown''
                                  else toLowerCase (plan_name p)))"
      by auto
    then show ?thesis
      by (auto simp: plans sample_user_id filter_value_def premium_plan_def sample_lower)
  qed
  from 1 2 3 4 show ?thesis by blast
qed

section \<open>Transaction completed\<close>

lemma handleTransactionCompleted_unfold:
  assumes "payload \<noteq> JNull" and "get_prop payload ''data'' = Some transaction" and "transaction \<noteq> JNull"
    and "get_prop transaction ''custom_data'' = Some cd" and "truthy (Some cd)" and "cd \<noteq> JNull"
    and "validateUser s (get_prop cd ''userId'') = (uv, s1)" and "uv_isValid uv"
  shows "handleTransactionCompleted rt s payload =
     (if \<not> truthy (get_prop transaction ''subscription_id'')
         \<and> gt_zero (rt_positive rt) (opt_member (get_prop transaction ''items'') ''length'')
      then
        (case member (opt_member (get_prop transaction ''items'') ''0'') ''product_id'' of
           Inl x \<Rightarrow> (Inl x, s1)
         | Inr item_product_id \<Rightarrow>
           (let productId = transaction_product_id transaction
            in (if truthy productId
                then
                  (case select_plan s1 productId of
                     (Inl planError, s2) \<Rightarrow>
                       (Inr \<lparr>success = True, message = Transaction_processed\<rparr>, s2)
                   | (Inr plan, s2) \<Rightarrow>
                       (case upsertUserProfile (rt_iso rt) s2 (get_prop cd ''userId'') (Some cd)
                               \<lparr>sd_status = Some (JStr ''active''),
                                sd_planName = toLowerCase (plan_name plan),
                                sd_customerId = get_prop transaction ''customer_id''\<rparr> of
                          (profileResult, s3) \<Rightarrow>
                            (if \<not> ur_success profileResult
                             then (Inr \<lparr>success = False,
                                        message = Profile_update_failed_one_time
                                          (ur_error profileResult)\<rparr>, s3)
                             else (Inr \<lparr>success = True, message = Transaction_processed\<rparr>, s3))))
                else (Inr \<lparr>success = True, message = Transaction_processed\<rparr>, s1))))
      else (Inr \<lparr>success = True, message = Transaction_processed\<rparr>, s1))"
  using assms
  by (simp add: handleTransactionCompleted_def member_Some opt_member_Some or_else_truthy Let_def
        cong: prod.case_cong sum.case_cong if_cong)

text \<open>
  C7, as the code has it. For a validated \<open>transaction.completed\<close> event whose user
  validation passed and whose handler returns a result: the plan and subscription
  tables never change; the profiles change only when the transaction has no
  \<open>subscription_id\<close> and \<open>items.length > 0\<close>, and then a plan matches the identifier taken
  from \<open>items[0].product_id\<close>, else \<open>items[0].price_id\<close> (a top-level \<open>product_id\<close> is not
  consulted), and the profile of the user is written with status \<open>active\<close> and that
  plan's name in lower case; when no plan matches that identifier the result is the
  success message and the profiles are unchanged; and with a store that answers every
  call and exactly one matching plan the profile is written.
\<close>

theorem transaction_completed_sync:
  assumes valid: "validateWebhookPayload payload = Inr v" "v_isValid v"
    and data: "get_prop payload ''data'' = Some transaction"
    and user: "validateUser s (opt_member (get_prop transaction ''custom_data'') ''userId'') = (uv, s1)"
              "uv_isValid uv"
    and run: "handleTransactionCompleted rt s payload = (Inr r, s')"
  shows "subscription_plans s' = subscription_plans s \<and> user_subscriptions s' = user_subscriptions s
     \<and> (profiles s' \<noteq> profiles s \<longrightarrow>
           \<not> truthy (get_prop transaction ''subscription_id'')
           \<and> gt_zero (rt_positive rt) (opt_member (get_prop transaction ''items'') ''length'')
           \<and> (\<exists>p row. p \<in> set (subscription_plans s)
                 \<and> plan_matches (transaction_product_id transaction) p
                 \<and> profiles s' = (profiles s)
                      (filter_value (opt_member (get_prop transaction ''custom_data'') ''userId'') \<mapsto> row)
                 \<and> row ''subscription_status'' = Some (JStr ''active'')
                 \<and> row ''subscription_plan''
                      = Some (JStr (if toLowerCase (plan_name p) = [] then ''unknown''
                                    else toLowerCase (plan_name p)))))
     \<and> ((\<forall>p \<in> set (subscription_plans s). \<not> plan_matches (transaction_product_id transaction) p) \<longrightarrow>
           r = \<lparr>success = True, message = Transaction_processed\<rparr> \<and> profiles s' = profiles s)
     \<and> (\<forall>p. pending_faults s = []
           \<and> \<not> truthy (get_prop transaction ''subscription_id'')
           \<and> gt_zero (rt_positive rt) (opt_member (get_prop transaction ''items'') ''length'')
           \<and> truthy (transaction_product_id transaction)
           \<and> filter (plan_matches (transaction_product_id transaction)) (subscription_plans s) = [p] \<longrightarrow>
           r = \<lparr>success = True, message = Transaction_processed\<rparr>
           \<and> (\<exists>row. profiles s' (filter_value (opt_member (get_prop transaction ''custom_data'') ''userId''))
                        = Some row
                 \<and> row ''subscription_status'' = Some (JStr ''active'')
                 \<and> row ''subscription_plan''
                      = Some (JStr (if toLowerCase (plan_name p) = [] then ''unknown''
                                    else toLowerCase (plan_name p)))))"
proof -
  let ?pid = "transaction_product_id transaction"
  let ?item = "opt_member (get_prop transaction ''items'') ''0''"
  let ?guard = "\<not> truthy (get_prop transaction ''subscription_id'')
           \<and> gt_zero (rt_positive rt) (opt_member (get_prop transaction ''items'') ''length'')"
  from valid data obtain cd uid where
    nn: "payload \<noteq> JNull" "transaction \<noteq> JNull"
    and cd: "get_prop transaction ''custom_data'' = Some cd" "cd \<noteq> JNull" "truthy (Some cd)"
    and uid: "get_prop cd ''userId'' = Some uid" "uid \<noteq> JNull"
    by (auto elim!: validated_payload)
  from cd have ou: "opt_member (get_prop transaction ''custom_data'') ''userId'' = get_prop cd ''userId''"
    by (simp add: opt_member_Some)
  note unfold0 = handleTransactionCompleted_unfold [OF nn(1) data nn(2) cd(1) cd(3) cd(2)
      user(1) [unfolded ou] user(2), of rt]
  have readable: "?guard \<longrightarrow> (\<exists>b. member ?item ''product_id'' = Inr b)"
    using run unfolding unfold0
    by (cases "member ?item ''product_id''") (auto split: if_splits)
  have "handleTransactionCompleted rt s payload =
     (if ?guard \<and> truthy ?pid
      then
        (case select_plan s1 ?pid of
           (Inl planError, s2) \<Rightarrow> (Inr \<lparr>success = True, message = Transaction_processed\<rparr>, s2)
         | (Inr plan, s2) \<Rightarrow>
             (case upsertUserProfile (rt_iso rt) s2 (get_prop cd ''userId'') (Some cd)
                     \<lparr>sd_status = Some (JStr ''active''),
                      sd_planName = toLowerCase (plan_name plan),
                      sd_customerId = get_prop transaction ''customer_id''\<rparr> of
                (profileResult, s3) \<Rightarrow>
                  (if \<not> ur_success profileResult
                   then (Inr \<lparr>success = False,
                              message = Profile_update_failed_one_time (ur_error profileResult)\<rparr>, s3)
                   else (Inr \<lparr>success = True, message = Transaction_processed\<rparr>, s3))))
      else (Inr \<lparr>success = True, message = Transaction_processed\<rparr>, s1))"
  proof (cases ?guard)
    case True
    with readable obtain b where "member ?item ''product_id'' = Inr b" by blast
    with True show ?thesis unfolding unfold0 by (simp add: Let_def)
  next
    case False
    then show ?thesis unfolding unfold0 by auto
  qed
  note unfold = run [unfolded this]
  from validateUser_tables [OF user(1)]
  have t1: "profiles s1 = profiles s" "subscription_plans s1 = subscription_plans s"
    "user_subscriptions s1 = user_subscriptions s" by simp_all
  obtain pr s2 where sp: "select_plan s1 ?pid = (pr, s2)" by force
  from select_plan_tables [OF sp] t1
  have t2: "profiles s2 = profiles s" "subscription_plans s2 = subscription_plans s"
    "user_subscriptions s2 = user_subscriptions s" by simp_all
  have frame: "subscription_plans s' = subscription_plans s \<and> user_subscriptions s' = user_subscriptions s"
    using unfold t1 t2 sp
    by (auto simp: Let_def split: if_splits sum.splits prod.splits dest: upsertUserProfile_frame(1,2))
  have only_when: "\<not> truthy (get_prop transaction ''subscription_id'')
           \<and> gt_zero (rt_positive rt) (opt_member (get_prop transaction ''items'') ''length'')
           \<and> (\<exists>p row. p \<in> set (subscription_plans s) \<and> plan_matches ?pid p
                 \<and> profiles s' = (profiles s)
                      (filter_value (opt_member (get_prop transaction ''custom_data'') ''userId'') \<mapsto> row)
                 \<and> row ''subscription_status'' = Some (JStr ''active'')
                 \<and> row ''subscription_plan''
                      = Some (JStr (if toLowerCase (plan_name p) = [] then ''unknown''
                                    else toLowerCase (plan_name p))))"
    if changed: "profiles s' \<noteq> profiles s"
  proof -
    from changed unfold t1 t2 sp have g: "?guard" "truthy ?pid"
      by (auto simp: Let_def split: if_splits)
    with changed unfold t1 t2 sp obtain p where p: "pr = Inr p"
      by (cases pr) (auto simp: Let_def)
    let ?sd = "\<lparr>sd_status = Some (JStr ''active''), sd_planName = toLowerCase (plan_name p),
                sd_customerId = get_prop transaction ''customer_id''\<rparr>"
    obtain ur s3 where up: "upsertUserProfile (rt_iso rt) s2 (get_prop cd ''userId'') (Some cd) ?sd = (ur, s3)"
      by force
    with unfold g sp p have s': "s' = s3" by (auto simp: Let_def split: if_splits)
    with changed t2 upsertUserProfile_frame(3) [OF up] have uok: "ur_success ur" by auto
    from upsertUserProfile_frame(4) [OF up uok] obtain new where
      new: "profiles s3 = (profiles s2)(filter_value (get_prop cd ''userId'') \<mapsto> new)"
        "new ''subscription_plan'' = to_row (profileData (rt_iso rt) (get_prop cd ''userId'') cd ?sd) ''subscription_plan''"
        "new ''subscription_status'' = to_row (profileData (rt_iso rt) (get_prop cd ''userId'') cd ?sd) ''subscription_status''"
      by auto
    from select_plan_found [OF sp [unfolded p]] t1
    have pin: "p \<in> set (subscription_plans s)" "plan_matches ?pid p" by simp_all
    have plan_col: "new ''subscription_plan'' = Some (JStr (if toLowerCase (plan_name p) = [] then ''unknown''
                                    else toLowerCase (plan_name p)))"
      using new(2) by (simp add: profileData_columns)
    have status_col: "new ''subscription_status'' = Some (JStr ''active'')"
      using new(3) by (simp add: profileData_columns or_else_def)
    have "profiles s' = (profiles s)
            (filter_value (opt_member (get_prop transaction ''custom_data'') ''userId'') \<mapsto> new)"
      using new(1) s' t2 ou by simp
    with g pin plan_col status_col show ?thesis by blast
  qed
  have no_plan: "r = \<lparr>success = True, message = Transaction_processed\<rparr> \<and> profiles s' = profiles s"
    if none: "\<forall>p \<in> set (subscription_plans s). \<not> plan_matches ?pid p"
  proof -
    from none t1 obtain err where "pr = Inl err"
      using select_plan_none [of s1 ?pid] sp by auto
    with unfold sp t1 t2 show ?thesis
      by (auto simp: Let_def split: if_splits)
  qed
  have purchase: "r = \<lparr>success = True, message = Transaction_processed\<rparr>
           \<and> (\<exists>row. profiles s' (filter_value (opt_member (get_prop transaction ''custom_data'') ''userId''))
                        = Some row
                 \<and> row ''subscription_status'' = Some (JStr ''active'')
                 \<and> row ''subscription_plan''
                      = Some (JStr (if toLowerCase (plan_name p) = [] then ''unknown''
                                    else toLowerCase (plan_name p))))"
    if nf: "pending_faults s = []" and g: "\<not> truthy (get_prop transaction ''subscription_id'')"
      "gt_zero (rt_positive rt) (opt_member (get_prop transaction ''items'') ''length'')" "truthy ?pid"
      and one: "filter (plan_matches ?pid) (subscription_plans s) = [p]" for p
  proof -
    from validateUser_no_fault [OF nf user(1)] have s1: "s1 = s" by simp
    from select_plan_no_fault [OF nf one] s1 sp have pr: "pr = Inr p" "s2 = s" by simp_all
    let ?sd = "\<lparr>sd_status = Some (JStr ''active''), sd_planName = toLowerCase (plan_name p),
                sd_customerId = get_prop transaction ''customer_id''\<rparr>"
    from upsertUserProfile_no_fault [OF nf uid(2) cd(2), of "rt_iso rt" ?sd] uid(1)
    obtain ur s3 where up: "upsertUserProfile (rt_iso rt) s (get_prop cd ''userId'') (Some cd) ?sd = (ur, s3)"
      "ur_success ur" by auto
    from unfold g sp pr up have fin: "r = \<lparr>success = True, message = Transaction_processed\<rparr>" "s' = s3"
      by (simp_all add: Let_def)
    from upsertUserProfile_frame(4) [OF up] obtain new where
      new: "profiles s3 = (profiles s)(filter_value (get_prop cd ''userId'') \<mapsto> new)"
        "new ''subscription_plan'' = to_row (profileData (rt_iso rt) (get_prop cd ''userId'') cd ?sd) ''subscription_plan''"
        "new ''subscription_status'' = to_row (profileData (rt_iso rt) (get_prop cd ''userId'') cd ?sd) ''subscription_status''"
      by auto
    have plan_col: "new ''subscription_plan'' = Some (JStr (if toLowerCase (plan_name p) = [] then ''unknown''
                                    else toLowerCase (plan_name p)))"
      using new(2) by (simp add: profileData_columns)
    have status_col: "new ''subscription_status'' = Some (JStr ''active'')"
      using new(3) by (simp add: profileData_columns or_else_def)
    have "profiles s' (filter_value (opt_member (get_prop transaction ''custom_data'') ''userId'')) = Some new"
      using new(1) fin(2) ou by simp
    with fin(1) plan_col status_col show ?thesis by blast
  qed
  from frame only_when no_plan purchase show ?thesis by blast
qed

lemmas payload_defs = event_def user_1_data_def known_subscription_def unknown_subscription_def
  itemless_subscription_def one_time_purchase_def top_level_purchase_def unknown_purchase_def
  renewal_def cancellation_def stray_cancellation_def null_item_purchase_def

lemmas store_defs = sample_store_def premium_plan_def sample_runtime_def

lemmas json_defs = member_def opt_member_def or_else_def at_index_def filter_value_def

lemmas query_defs = validateUser_def select_profile_def select_plan_def next_fault_def
  plan_matches_def no_rows_def update_profile_def insert_profile_def

lemma purchase_valid:
  "validateWebhookPayload (event ''transaction.completed'' one_time_purchase)
     = Inr \<lparr>v_isValid = True, v_errors = []\<rparr>"
  "validateWebhookPayload (event ''transaction.completed'' unknown_purchase)
     = Inr \<lparr>v_isValid = True, v_errors = []\<rparr>"
  "validateWebhookPayload (event ''transaction.completed'' renewal)
     = Inr \<lparr>v_isValid = True, v_errors = []\<rparr>"
  "validateWebhookPayload (event ''transaction.completed'' top_level_purchase)
     = Inr \<lparr>v_isValid = True, v_errors = []\<rparr>"
  by (simp_all add: validateWebhookPayload_def payload_defs opt_member_def)

lemma purchase_user_id:
  "opt_member (get_prop one_time_purchase ''custom_data'') ''userId'' = Some (JStr ''user_1'')"
  "opt_member (get_prop unknown_purchase ''custom_data'') ''userId'' = Some (JStr ''user_1'')"
  "opt_member (get_prop renewal ''custom_data'') ''userId'' = Some (JStr ''user_1'')"
  by (simp_all add: payload_defs opt_member_def)

lemma purchase_product_id:
  "transaction_product_id one_time_purchase = Some (JStr ''pro_premium_001'')"
  "transaction_product_id unknown_purchase = Some (JStr ''pri_invalid_product_id'')"
  "transaction_product_id top_level_purchase = None"
  by (simp_all add: transaction_product_id_def payload_defs json_defs)

lemma unknown_purchase_run:
  "handleTransactionCompleted sample_runtime sample_store (event ''transaction.completed'' unknown_purchase)
     = (Inr \<lparr>success = True, message = Transaction_processed\<rparr>, sample_store)"
  by (simp add: handleTransactionCompleted_def transaction_product_id_def Let_def payload_defs json_defs
      query_defs store_defs)

lemma renewal_run:
  "handleTransactionCompleted sample_runtime sample_store (event ''transaction.completed'' renewal)
     = (Inr \<lparr>success = True, message = Transaction_processed\<rparr>, sample_store)"
  by (simp add: handleTransactionCompleted_def transaction_product_id_def Let_def payload_defs json_defs
      query_defs store_defs)

lemma one_time_purchase_run:
  "fst (handleTransactionCompleted sample_runtime sample_store (event ''transaction.completed'' one_time_purchase))
     = Inr \<lparr>success = True, message = Transaction_processed\<rparr>"
  by (simp add: handleTransactionCompleted_def transaction_product_id_def Let_def payload_defs json_defs
      query_defs store_defs upsertUserProfile_def stored_profile_def split: prod.splits)

theorem top_level_product_id_counterexample:
  "subscription_product_id top_level_purchase = Some (JStr ''pro_premium_001'')
   \<and> plan_matches (Some (JStr ''pro_premium_001'')) premium_plan
   \<and> premium_plan \<in> set (subscription_plans sample_store)
   \<and> handleTransactionCompleted sample_runtime sample_store
        (event ''transaction.completed'' top_level_purchase)
       = (Inr \<lparr>success = True, message = Transaction_processed\<rparr>, sample_store)"
  by (simp add: handleTransactionCompleted_def subscription_product_id_def transaction_product_id_def
      Let_def payload_defs json_defs query_defs store_defs)


theorem transaction_completed_sync_witness:
  "(\<exists>row. profiles (snd (handleTransactionCompleted sample_runtime sample_store
                            (event ''transaction.completed'' one_time_purchase))) (JStr ''user_1'')
            = Some row
          \<and> row ''subscription_status'' = Some (JStr ''active'')
          \<and> row ''subscription_plan'' = Some (JStr ''premium''))
   \<and> (subscription_plans sample_store = [premium_plan]
      \<and> \<not> plan_matches (transaction_product_id unknown_purchase) premium_plan
      \<and> handleTransactionCompleted sample_runtime sample_store (event ''transaction.completed'' unknown_purchase)
        = (Inr \<lparr>success = True, message = Transaction_processed\<rparr>, sample_store))
   \<and> (truthy (get_prop renewal ''subscription_id'')
      \<and> profiles (snd (handleTransactionCompleted sample_runtime sample_store
                          (event ''transaction.completed'' renewal))) = profiles sample_store)"
proof -
  have data: "get_prop (event t d) ''data'' = Some d" for t d
    by (simp add: event_def)
  have v: "v_isValid \<lparr>v_isValid = True, v_errors = []\<rparr>"
    and u: "uv_isValid \<lparr>uv_isValid = True, uv_profile = Some stored_profile, uv_error = None\<rparr>"
    by simp_all
  have run1: "handleTransactionCompleted sample_runtime sample_store (event ''transaction.completed'' one_time_purchase)
      = (Inr \<lparr>success = True, message = Transaction_processed\<rparr>,
         snd (handleTransactionCompleted sample_runtime sample_store
                (event ''transaction.completed'' one_time_purchase)))"
    using one_time_purchase_run by (simp add: prod_eq_iff)
  have run3: "handleTransactionCompleted sample_runtime sample_store (event ''transaction.completed'' renewal)
      = (Inr \<lparr>success = True, message = Transaction_processed\<rparr>,
         snd (handleTransactionCompleted sample_runtime sample_store
                (event ''transaction.completed'' renewal)))"
    using renewal_run by (simp add: prod_eq_iff)
  note a = transaction_completed_sync [OF purchase_valid(1) v data
      sample_user [folded purchase_user_id(1)] u run1]
  note b = transaction_completed_sync [OF purchase_valid(2) v data
      sample_user [folded purchase_user_id(2)] u unknown_purchase_run]
  note c = transaction_completed_sync [OF purchase_valid(3) v data
      sample_user [folded purchase_user_id(3)] u run3]
  have guard: "\<not> truthy (get_prop one_time_purchase ''subscription_id'')"
    "gt_zero (rt_positive sample_runtime) (opt_member (get_prop one_time_purchase ''items'') ''length'')"
    "truthy (get_prop renewal ''subscription_id'')"
    by (simp_all add: payload_defs opt_member_def)
  have plans: "pending_faults sample_store = []"
    "filter (plan_matches (Some (JStr ''pro_premium_001''))) (subscription_plans sample_store) = [premium_plan]"
    "\<forall>p \<in> set (subscription_plans sample_store). \<not> plan_matches (Some (JStr ''pri_invalid_product_id'')) p"
    by (simp_all add: store_defs plan_matches_def filter_value_def)
  from a [THEN conjunct2, THEN conjunct2, THEN conjunct2, THEN conjunct2, rule_format, of premium_plan]
    guard plans
  have 1: "\<exists>row. profiles (snd (handleTransactionCompleted sample_runtime sample_store
                            (event ''transaction.completed'' one_time_purchase))) (JStr ''user_1'')
            = Some row
          \<and> row ''subscription_status'' = Some (JStr ''active'')
          \<and> row ''subscription_plan'' = Some (JStr ''premium'')"
    by (simp add: purchase_product_id purchase_user_id filter_value_def premium_plan_def sample_lower)
  from b [THEN conjunct2, THEN conjunct2, THEN conjunct2, THEN conjunct1] plans
  have 2: "subscription_plans sample_store = [premium_plan]
      \<and> \<not> plan_matches (transaction_product_id unknown_purchase) premium_plan
      \<and> profiles sample_store = profiles sample_store"
    by (simp add: purchase_product_id store_defs)
  from c [THEN conjunct2, THEN conjunct2, THEN conjunct1] guard
  have 3: "profiles (snd (handleTransactionCompleted sample_runtime sample_store
                          (event ''transaction.completed'' renewal))) = profiles sample_store"
    by auto
  from 1 2 3 unknown_purchase_run guard(3) show ?thesis by blast
qed

section \<open>Subscription canceled\<close>

lemma update_subscriptions_frame:
  "update_subscriptions s sid data = (r, s') \<Longrightarrow>
     profiles s' = profiles s \<and> subscription_plans s' = subscription_plans s
     \<and> (case r of
           Some err \<Rightarrow> user_subscriptions s' = user_subscriptions s
         | None \<Rightarrow> user_subscriptions s' =
                     map (\<lambda>x. if row_matches ''paddle_subscription_id'' (filter_value sid) x
                               then x ++ data else x) (user_subscriptions s))"
  by (auto simp: update_subscriptions_def next_fault_def split: list.splits option.splits)

lemma update_subscriptions_no_fault:
  "pending_faults s = [] \<Longrightarrow> fst (update_subscriptions s sid data) = None"
  by (simp add: update_subscriptions_def next_fault_def)

lemma cancellation_columns:
  assumes "or_else a (Some (JStr ''canceled'')) = Some st" and "or_else b (Some (JStr ts)) = Some pe"
  shows "x ++ to_row [(''status'', or_else a (Some (JStr ''canceled''))),
                      (''updated_at'', Some (JStr ts)),
                      (''current_period_end'', or_else b (Some (JStr ts)))]
         = x(''status'' \<mapsto> st, ''updated_at'' \<mapsto> JStr ts, ''current_period_end'' \<mapsto> pe)"
  using assms by (auto simp: to_row_Cons to_row_Nil map_add_def fun_eq_iff)

lemma handleSubscriptionCanceled_unfold:
  assumes "payload \<noteq> JNull" and "get_prop payload ''data'' = Some subscription" and "subscription \<noteq> JNull"
    and "get_prop subscription ''custom_data'' = Some cd" and "truthy (Some cd)" and "cd \<noteq> JNull"
    and "validateUser s (get_prop cd ''userId'') = (uv, s1)" and "uv_isValid uv"
  shows "handleSubscriptionCanceled rt s payload =
     (case upsertUserProfile (rt_iso rt) s1 (get_prop cd ''userId'') (Some cd)
             \<lparr>sd_status = or_else (get_prop subscription ''status'') (Some (JStr ''canceled'')),
              sd_planName = ''free'',
              sd_customerId = get_prop subscription ''customer_id''\<rparr> of
        (profileResult, s2) \<Rightarrow>
          (if \<not> ur_success profileResult
           then (Inr \<lparr>success = False,
                      message = Profile_update_failed_cancellation (ur_error profileResult)\<rparr>, s2)
           else
             (case update_subscriptions s2 (get_prop subscription ''id'')
                     (to_row
                        [(''status'', or_else (get_prop subscription ''status'') (Some (JStr ''canceled''))),
                         (''updated_at'', Some (JStr (rt_iso rt))),
                         (''current_period_end'',
                            or_else (opt_member (get_prop subscription ''current_billing_period'') ''ends_at'')
                              (Some (JStr (rt_iso rt))))]) of
                (Some subscriptionUpdateError, s3) \<Rightarrow>
                  (Inr \<lparr>success = False,
                        message = Subscription_record_update_failed
                          (err_message subscriptionUpdateError)\<rparr>, s3)
              | (None, s3) \<Rightarrow>
                  (Inr \<lparr>success = True, message = Cancellation_processed\<rparr>, s3))))"
  using assms
  by (simp add: handleSubscriptionCanceled_def member_Some opt_member_Some or_else_truthy Let_def
        cong: prod.case_cong sum.case_cong if_cong)

text \<open>
  C8. For a validated \<open>subscription.canceled\<close> event whose user validation passed: the
  number of subscription rows never changes, whatever the outcome. Whenever the handler
  succeeds, the profile of the user holds the plan \<open>free\<close> and the status of the event
  (\<open>canceled\<close> when the event has none), and the subscription table is the old one with
  \<open>status\<close>, \<open>updated_at\<close> and \<open>current_period_end\<close> overwritten in exactly the rows whose
  \<open>paddle_subscription_id\<close> is the event's \<open>id\<close>; when no row has that id the table is
  unchanged. With a store that answers every call the handler does succeed.
\<close>

theorem subscription_canceled_sync:
  assumes valid: "validateWebhookPayload payload = Inr v" "v_isValid v"
    and data: "get_prop payload ''data'' = Some subscription"
    and user: "validateUser s (opt_member (get_prop subscription ''custom_data'') ''userId'') = (uv, s1)"
              "uv_isValid uv"
    and run: "handleSubscriptionCanceled rt s payload = (out, s')"
  shows "length (user_subscriptions s') = length (user_subscriptions s)
     \<and> (\<forall>r. out = Inr r \<and> success r \<longrightarrow>
           (\<exists>row st pe.
               profiles s' (filter_value (opt_member (get_prop subscription ''custom_data'') ''userId''))
                 = Some row
             \<and> row ''subscription_plan'' = Some (JStr ''free'')
             \<and> row ''subscription_status'' = Some st
             \<and> or_else (get_prop subscription ''status'') (Some (JStr ''canceled'')) = Some st
             \<and> or_else (opt_member (get_prop subscription ''current_billing_period'') ''ends_at'')
                  (Some (JStr (rt_iso rt))) = Some pe
             \<and> user_subscriptions s' =
                 map (\<lambda>x. if row_matches ''paddle_subscription_id''
                                (filter_value (get_prop subscription ''id'')) x
                           then x(''status'' \<mapsto> st, ''updated_at'' \<mapsto> JStr (rt_iso rt),
                                  ''current_period_end'' \<mapsto> pe)
                           else x)
                   (user_subscriptions s)))
     \<and> (\<forall>r. out = Inr r \<and> success r
            \<and> (\<forall>x \<in> set (user_subscriptions s).
                   \<not> row_matches ''paddle_subscription_id'' (filter_value (get_prop subscription ''id'')) x)
            \<longrightarrow> user_subscriptions s' = user_subscriptions s)
     \<and> (pending_faults s = [] \<longrightarrow> out = Inr \<lparr>success = True, message = Cancellation_processed\<rparr>)"
proof -
  let ?sid = "filter_value (get_prop subscription ''id'')"
  let ?st = "or_else (get_prop subscription ''status'') (Some (JStr ''canceled''))"
  let ?pe = "or_else (opt_member (get_prop subscription ''current_billing_period'') ''ends_at'')
               (Some (JStr (rt_iso rt)))"
  let ?data = "to_row [(''status'', ?st), (''updated_at'', Some (JStr (rt_iso rt))),
                       (''current_period_end'', ?pe)]"
  let ?sd = "\<lparr>sd_status = ?st, sd_planName = ''free'',
              sd_customerId = get_prop subscription ''customer_id''\<rparr>"
  from valid data obtain cd uid where
    nn: "payload \<noteq> JNull" "subscription \<noteq> JNull"
    and cd: "get_prop subscription ''custom_data'' = Some cd" "cd \<noteq> JNull" "truthy (Some cd)"
    and uid: "get_prop cd ''userId'' = Some uid" "uid \<noteq> JNull"
    by (auto elim!: validated_payload)
  from cd have ou: "opt_member (get_prop subscription ''custom_data'') ''userId'' = get_prop cd ''userId''"
    by (simp add: opt_member_Some)
  note unfold = run [unfolded handleSubscriptionCanceled_unfold [OF nn(1) data nn(2) cd(1) cd(3) cd(2)
      user(1) [unfolded ou] user(2), of rt]]
  from validateUser_tables [OF user(1)]
  have t1: "profiles s1 = profiles s" "user_subscriptions s1 = user_subscriptions s" by simp_all
  obtain ur s2 where up: "upsertUserProfile (rt_iso rt) s1 (get_prop cd ''userId'') (Some cd) ?sd = (ur, s2)"
    by force
  from upsertUserProfile_frame(2) [OF up] t1
  have t2: "user_subscriptions s2 = user_subscriptions s" by simp
  obtain er s3 where us: "update_subscriptions s2 (get_prop subscription ''id'') ?data = (er, s3)"
    by force
  from update_subscriptions_frame [OF us]
  have t3: "profiles s3 = profiles s2"
    and rows: "er = None \<Longrightarrow> user_subscriptions s3 =
                 map (\<lambda>x. if row_matches ''paddle_subscription_id'' ?sid x then x ++ ?data else x)
                   (user_subscriptions s2)"
    and same: "er \<noteq> None \<Longrightarrow> user_subscriptions s3 = user_subscriptions s2"
    by (auto split: option.splits)
  obtain st pe where st: "?st = Some st" and pe: "?pe = Some pe"
    using or_else_default by blast
  have count: "length (user_subscriptions s') = length (user_subscriptions s)"
  proof (cases "ur_success ur")
    case False
    with unfold up t2 show ?thesis by simp
  next
    case True
    with unfold up us have "s' = s3" by (cases er) simp_all
    with rows same t2 show ?thesis by (cases er) simp_all
  qed
  have on_success: "\<exists>row st pe.
               profiles s' (filter_value (opt_member (get_prop subscription ''custom_data'') ''userId''))
                 = Some row
             \<and> row ''subscription_plan'' = Some (JStr ''free'')
             \<and> row ''subscription_status'' = Some st
             \<and> ?st = Some st \<and> ?pe = Some pe
             \<and> user_subscriptions s' =
                 map (\<lambda>x. if row_matches ''paddle_subscription_id'' ?sid x
                           then x(''status'' \<mapsto> st, ''updated_at'' \<mapsto> JStr (rt_iso rt),
                                  ''current_period_end'' \<mapsto> pe)
                           else x)
                   (user_subscriptions s)"
    if out: "out = Inr r" and ok: "success r" for r
  proof -
    from out ok unfold up have uok: "ur_success ur" by (auto split: if_splits)
    with out ok unfold up us have "er = None \<and> s' = s3"
      by (cases er) auto
    then have er: "er = None" and s': "s' = s3" by simp_all
    from upsertUserProfile_frame(4) [OF up uok] obtain new where
      new: "profiles s2 = (profiles s1)(filter_value (get_prop cd ''userId'') \<mapsto> new)"
        "new ''subscription_plan'' = to_row (profileData (rt_iso rt) (get_prop cd ''userId'') cd ?sd) ''subscription_plan''"
        "new ''subscription_status'' = to_row (profileData (rt_iso rt) (get_prop cd ''userId'') cd ?sd) ''subscription_status''"
      by auto
    have plan_col: "new ''subscription_plan'' = Some (JStr ''free'')"
      using new(2) by (simp add: profileData_columns)
    have status_col: "new ''subscription_status'' = Some st"
      using new(3) st by (auto simp add: profileData_columns or_else_def split: if_splits)
    have prof: "profiles s' (filter_value (opt_member (get_prop subscription ''custom_data'') ''userId''))
                 = Some new"
      using new(1) s' t3 ou by simp
    have "user_subscriptions s' =
                 map (\<lambda>x. if row_matches ''paddle_subscription_id'' ?sid x
                           then x(''status'' \<mapsto> st, ''updated_at'' \<mapsto> JStr (rt_iso rt),
                                  ''current_period_end'' \<mapsto> pe)
                           else x)
                   (user_subscriptions s)"
      using rows [OF er] s' t2 cancellation_columns [OF st pe] by simp
    with prof plan_col status_col st pe show ?thesis by blast
  qed
  have untouched: "user_subscriptions s' = user_subscriptions s"
    if out: "out = Inr r" and ok: "success r"
      and none: "\<forall>x \<in> set (user_subscriptions s). \<not> row_matches ''paddle_subscription_id'' ?sid x" for r
  proof -
    from on_success [OF out ok] obtain st pe where
      "user_subscriptions s' =
                 map (\<lambda>x. if row_matches ''paddle_subscription_id'' ?sid x
                           then x(''status'' \<mapsto> st, ''updated_at'' \<mapsto> JStr (rt_iso rt),
                                  ''current_period_end'' \<mapsto> pe)
                           else x)
                   (user_subscriptions s)" by blast
    with none show ?thesis by (simp add: map_idI)
  qed
  have reachable: "out = Inr \<lparr>success = True, message = Cancellation_processed\<rparr>"
    if nf: "pending_faults s = []"
  proof -
    from validateUser_no_fault [OF nf user(1)] have s1: "s1 = s" by simp
    from upsertUserProfile_no_fault [OF nf uid(2) cd(2), of "rt_iso rt" ?sd] uid(1) up s1
    have uok: "ur_success ur" "pending_faults s2 = []" by auto
    from update_subscriptions_no_fault [OF uok(2), of "get_prop subscription ''id''" ?data] us
    have "er = None" by simp
    with unfold up us uok show ?thesis by simp
  qed
  from count on_success untouched reachable show ?thesis by blast
qed

lemma cancellation_valid:
  "validateWebhookPayload (event ''subscription.canceled'' cancellation)
     = Inr \<lparr>v_isValid = True, v_errors = []\<rparr>"
  "validateWebhookPayload (event ''subscription.canceled'' stray_cancellation)
     = Inr \<lparr>v_isValid = True, v_errors = []\<rparr>"
  by (simp_all add: validateWebhookPayload_def payload_defs opt_member_def)

lemma cancellation_user_id:
  "opt_member (get_prop cancellation ''custom_data'') ''userId'' = Some (JStr ''user_1'')"
  "opt_member (get_prop stray_cancellation ''custom_data'') ''userId'' = Some (JStr ''user_1'')"
  by (simp_all add: payload_defs opt_member_def)

theorem subscription_canceled_sync_witness:
  "fst (handleSubscriptionCanceled sample_runtime sample_store (event ''subscription.canceled'' cancellation))
     = Inr \<lparr>success = True, message = Cancellation_processed\<rparr>
   \<and> (\<exists>row. profiles (snd (handleSubscriptionCanceled sample_runtime sample_store
                              (event ''subscription.canceled'' cancellation))) (JStr ''user_1'')
              = Some row
            \<and> row ''subscription_plan'' = Some (JStr ''free'')
            \<and> row ''subscription_status'' = Some (JStr ''canceled''))
   \<and> user_subscriptions (snd (handleSubscriptionCanceled sample_runtime sample_store
                                 (event ''subscription.canceled'' cancellation)))
       = [stored_subscription(''status'' \<mapsto> JStr ''canceled'',
                              ''updated_at'' \<mapsto> JStr ''2025-01-01T00:00:00.000Z'',
                              ''current_period_end'' \<mapsto> JStr ''2025-02-01T00:00:00Z'')]
   \<and> user_subscriptions (snd (handleSubscriptionCanceled sample_runtime sample_store
                                 (event ''subscription.canceled'' stray_cancellation)))
       = [stored_subscription]"
proof -
  have data: "get_prop (event t d) ''data'' = Some d" for t d
    by (simp add: event_def)
  have v: "v_isValid \<lparr>v_isValid = True, v_errors = []\<rparr>"
    and u: "uv_isValid \<lparr>uv_isValid = True, uv_profile = Some stored_profile, uv_error = None\<rparr>"
    by simp_all
  note a = subscription_canceled_sync [where rt = sample_runtime,
      OF cancellation_valid(1) v data sample_user [folded cancellation_user_id(1)] u surjective_pairing]
  note b = subscription_canceled_sync [where rt = sample_runtime,
      OF cancellation_valid(2) v data sample_user [folded cancellation_user_id(2)] u surjective_pairing]
  have nf: "pending_faults sample_store = []" and rows: "user_subscriptions sample_store = [stored_subscription]"
    by (simp_all add: sample_store_def)
  have ok: "success \<lparr>success = True, message = Cancellation_processed\<rparr>" by simp
  have 1: "fst (handleSubscriptionCanceled sample_runtime sample_store (event ''subscription.canceled'' cancellation))
     = Inr \<lparr>success = True, message = Cancellation_processed\<rparr>"
    using a [THEN conjunct2, THEN conjunct2, THEN conjunct2] nf by simp
  have stray: "fst (handleSubscriptionCanceled sample_runtime sample_store (event ''subscription.canceled'' stray_cancellation))
     = Inr \<lparr>success = True, message = Cancellation_processed\<rparr>"
    using b [THEN conjunct2, THEN conjunct2, THEN conjunct2] nf by simp
  have ids: "get_prop cancellation ''id'' = Some (JStr ''sub_1'')"
    "get_prop stray_cancellation ''id'' = Some (JStr ''sub_9'')"
    by (simp_all add: payload_defs)
  have m: "row_matches ''paddle_subscription_id'' (JStr ''sub_1'') stored_subscription"
    "\<not> row_matches ''paddle_subscription_id'' (JStr ''sub_9'') stored_subscription"
    by (simp_all add: row_matches_def stored_subscription_def)
  have cols: "or_else (get_prop cancellation ''status'') (Some (JStr ''canceled'')) = Some (JStr ''canceled'')"
    "or_else (opt_member (get_prop cancellation ''current_billing_period'') ''ends_at'')
       (Some (JStr ''2025-01-01T00:00:00.000Z'')) = Some (JStr ''2025-02-01T00:00:00Z'')"
    "rt_iso sample_runtime = ''2025-01-01T00:00:00.000Z''"
    by (simp_all add: payload_defs json_defs sample_runtime_def)
  from a [THEN conjunct2, THEN conjunct1, rule_format, OF conjI [OF 1 ok]]
  have 2: "(\<exists>row. profiles (snd (handleSubscriptionCanceled sample_runtime sample_store
                              (event ''subscription.canceled'' cancellation))) (JStr ''user_1'')
              = Some row
            \<and> row ''subscription_plan'' = Some (JStr ''free'')
            \<and> row ''subscription_status'' = Some (JStr ''canceled''))
   \<and> user_subscriptions (snd (handleSubscriptionCanceled sample_runtime sample_store
                                 (event ''subscription.canceled'' cancellation)))
       = [stored_subscription(''status'' \<mapsto> JStr ''canceled'',
                              ''updated_at'' \<mapsto> JStr ''2025-01-01T00:00:00.000Z'',
                              ''current_period_end'' \<mapsto> JStr ''2025-02-01T00:00:00Z'')]"
    by (auto simp: cols rows ids m cancellation_user_id filter_value_def)
  from b [THEN conjunct2, THEN conjunct2, THEN conjunct1, rule_format, OF conjI [OF stray conjI [OF ok]]]
  have 3: "user_subscriptions (snd (handleSubscriptionCanceled sample_runtime sample_store
                                 (event ''subscription.canceled'' stray_cancellation)))
       = [stored_subscription]"
    by (simp add: rows ids m filter_value_def)
  from 1 2 3 show ?thesis by blast
qed

section \<open>The response to a processed event\<close>

lemma route_created:
  "get_prop payload ''event_type'' = Some (JStr ''subscription.created'') \<Longrightarrow>
     route rt s payload = handleSubscriptionEvent rt s payload"
  by (simp add: route_def)

lemma plan_not_found_result:
  assumes valid: "validateWebhookPayload payload = Inr v" "v_isValid v"
    and data: "get_prop payload ''data'' = Some subscription"
    and user: "uv_isValid (fst (validateUser s (opt_member (get_prop subscription ''custom_data'') ''userId'')))"
    and pid: "truthy (subscription_product_id subscription)"
    and none: "\<forall>p \<in> set (subscription_plans s). \<not> plan_matches (subscription_product_id subscription) p"
  shows "\<exists>s'. handleSubscriptionEvent rt s payload
           = (Inr \<lparr>success = False, message = Plan_not_found (subscription_product_id subscription)\<rparr>, s')
         \<and> profiles s' = profiles s"
proof -
  from valid data obtain cd where
    nn: "payload \<noteq> JNull" "subscription \<noteq> JNull"
    and cd: "get_prop subscription ''custom_data'' = Some cd" "cd \<noteq> JNull" "truthy (Some cd)"
    by (auto elim!: validated_payload)
  from cd have ou: "opt_member (get_prop subscription ''custom_data'') ''userId'' = get_prop cd ''userId''"
    by (simp add: opt_member_Some)
  obtain uv s1 where v: "validateUser s (get_prop cd ''userId'') = (uv, s1)" by force
  with user ou have ok: "uv_isValid uv" by simp
  from validateUser_tables [OF v] have t1: "profiles s1 = profiles s"
    "subscription_plans s1 = subscription_plans s" by simp_all
  with none obtain err s2 where sp: "select_plan s1 (subscription_product_id subscription) = (Inl err, s2)"
    using select_plan_none [of s1 "subscription_product_id subscription"] by auto
  from select_plan_tables [OF sp] t1 have "profiles s2 = profiles s" by simp
  with handleSubscriptionEvent_unfold [OF nn(1) data nn(2) cd(1) cd(3) cd(2) v ok, of rt] pid sp
  show ?thesis by (simp add: Let_def)
qed

lemma validated_handlers_return:
  assumes valid: "validateWebhookPayload payload = Inr v" "v_isValid v"
  shows "\<exists>r s'. handleSubscriptionEvent rt s payload = (Inr r, s')"
    and "\<exists>r s'. handleSubscriptionCanceled rt s payload = (Inr r, s')"
proof -
  from valid obtain d cd where
    nn: "payload \<noteq> JNull" and data: "get_prop payload ''data'' = Some d" and d: "d \<noteq> JNull"
    and cd: "get_prop d ''custom_data'' = Some cd" "truthy (Some cd)" "cd \<noteq> JNull"
    by (auto elim!: validated_payload)
  obtain uv s1 where user: "validateUser s (get_prop cd ''userId'') = (uv, s1)" by force
  show "\<exists>r s'. handleSubscriptionEvent rt s payload = (Inr r, s')"
  proof (cases "uv_isValid uv")
    case False
    from invalid_user(1) [OF nn data d cd user False] show ?thesis by blast
  next
    case True
    show ?thesis
      unfolding handleSubscriptionEvent_unfold [OF nn data d cd(1) cd(2) cd(3) user True]
      by (auto simp: Let_def split: prod.splits sum.splits)
  qed
  show "\<exists>r s'. handleSubscriptionCanceled rt s payload = (Inr r, s')"
  proof (cases "uv_isValid uv")
    case False
    from invalid_user(3) [OF nn data d cd user False] show ?thesis by blast
  next
    case True
    show ?thesis
      unfolding handleSubscriptionCanceled_unfold [OF nn data d cd(1) cd(2) cd(3) user True]
      by (auto simp: Let_def split: prod.splits option.splits)
  qed
qed

lemma route_returns:
  assumes valid: "validateWebhookPayload payload = Inr v" "v_isValid v"
    and other: "get_prop payload ''event_type'' \<noteq> Some (JStr ''transaction.completed'')"
  shows "\<exists>r s'. route rt s payload = (Inr r, s')"
  using validated_handlers_return [OF valid, of rt s] other
  by (auto simp: route_def Let_def)

text \<open>
  C9, as the code has it. For a request that reached and passed signature
  verification, whose body parsed and whose payload passed validation: whenever the
  routed handler returns a result, the response has status 200 and its \<open>received\<close>
  field is the result's success flag, with the result's message, also when the flag is
  false; whenever the handler raises, the response has status 500. For every event type
  other than \<open>transaction.completed\<close> the handler does return a result. In particular, for \<open>subscription.created\<close> with a product identifier
  that no plan matches (user validation having passed), the response is 200 with
  \<open>received\<close> false and the plan-not-found message, and the profiles are unchanged.
\<close>

theorem serve_acknowledges:
  assumes not_preflight: "req_method req \<noteq> ''OPTIONS''"
    and config: "validateEnvironment e"
    and body_read: "req_text req = Some rawBody"
    and signature: "isValid (verifyPaddleSignature e (rt_hmac rt) (rt_now rt) (req_signature req) rawBody)"
    and parsed: "rt_json_parse rt rawBody = Some payload"
    and valid: "validateWebhookPayload payload = Inr v" "v_isValid v"
  shows "(\<forall>result s'. route rt s payload = (Inr result, s') \<longrightarrow>
            serve e rt s req
              = (\<lparr>status = 200,
                  body = Received (success result) (message result) (rt_request_id rt)\<rparr>, s'))
       \<and> (\<forall>x s'. route rt s payload = (Inl x, s') \<longrightarrow>
            serve e rt s req = (\<lparr>status = 500, body = Internal_error (rt_request_id rt)\<rparr>, s'))
       \<and> (get_prop payload ''event_type'' \<noteq> Some (JStr ''transaction.completed'') \<longrightarrow>
            (\<exists>result s'. route rt s payload = (Inr result, s')
               \<and> serve e rt s req
                   = (\<lparr>status = 200,
                       body = Received (success result) (message result) (rt_request_id rt)\<rparr>, s')))
       \<and> (\<forall>subscription.
             get_prop payload ''event_type'' = Some (JStr ''subscription.created'')
             \<and> get_prop payload ''data'' = Some subscription
             \<and> uv_isValid (fst (validateUser s
                   (opt_member (get_prop subscription ''custom_data'') ''userId'')))
             \<and> truthy (subscription_product_id subscription)
             \<and> (\<forall>p \<in> set (subscription_plans s).
                    \<not> plan_matches (subscription_product_id subscription) p) \<longrightarrow>
             fst (serve e rt s req)
               = \<lparr>status = 200,
                  body = Received False (Plan_not_found (subscription_product_id subscription))
                           (rt_request_id rt)\<rparr>
             \<and> profiles (snd (serve e rt s req)) = profiles s)"
proof -
  from valid have nn: "payload \<noteq> JNull"
    by (auto simp: validateWebhookPayload_def split: if_splits)
  have response: "serve e rt s req
           = (\<lparr>status = 200,
               body = Received (success result) (message result) (rt_request_id rt)\<rparr>, s')"
    if "route rt s payload = (Inr result, s')" for result s'
    using not_preflight config body_read signature parsed valid nn that
    by (simp add: serve_def Let_def)
  have raised: "serve e rt s req = (\<lparr>status = 500, body = Internal_error (rt_request_id rt)\<rparr>, s')"
    if "route rt s payload = (Inl x, s')" for x s'
    using not_preflight config body_read signature parsed valid nn that
    by (simp add: serve_def Let_def)
  have always: "\<exists>result s'. route rt s payload = (Inr result, s')
               \<and> serve e rt s req
                   = (\<lparr>status = 200,
                       body = Received (success result) (message result) (rt_request_id rt)\<rparr>, s')"
    if "get_prop payload ''event_type'' \<noteq> Some (JStr ''transaction.completed'')"
    using route_returns [OF valid that, of rt s] response by blast
  have scenario: "fst (serve e rt s req)
               = \<lparr>status = 200,
                  body = Received False (Plan_not_found (subscription_product_id subscription))
                           (rt_request_id rt)\<rparr>
             \<and> profiles (snd (serve e rt s req)) = profiles s"
    if created: "get_prop payload ''event_type'' = Some (JStr ''subscription.created'')"
      and data: "get_prop payload ''data'' = Some subscription"
      and user: "uv_isValid (fst (validateUser s
                   (opt_member (get_prop subscription ''custom_data'') ''userId'')))"
      and pid: "truthy (subscription_product_id subscription)"
      and none: "\<forall>p \<in> set (subscription_plans s).
                    \<not> plan_matches (subscription_product_id subscription) p"
    for subscription
  proof -
    from plan_not_found_result [OF valid data user pid none, of rt] route_created [OF created, of rt s]
    obtain s' where "route rt s payload
        = (Inr \<lparr>success = False, message = Plan_not_found (subscription_product_id subscription)\<rparr>, s')"
      and "profiles s' = profiles s" by auto
    with response [OF this(1)] show ?thesis by simp
  qed
  from response raised always scenario show ?thesis by blast
qed

lemma null_item_signature:
  "verifyPaddleSignature production_env concat_hmac 1100 (Some ''ts=1000;h1=K1000:null-item'') ''null-item''
     = \<lparr>isValid = True, reason = ''valid''\<rparr>"
proof -
  have "toLowerCase ''k1000:null-item'' = toLowerCase ''K1000:null-item''" by code_simp
  then show ?thesis
    by (simp add: verifyPaddleSignature_def sample_production header_field_def startsWith_def
        at_index_def parseInt10_def is_js_space_def is_digit_def digits_value_def
        WEBHOOK_TIMESTAMP_TOLERANCE_SECONDS_def concat_hmac_def)
qed

lemma null_item_route:
  "route sample_runtime sample_store (event ''transaction.completed'' null_item_purchase)
     = (Inl TypeError, sample_store)"
  by (simp add: route_def handleTransactionCompleted_def Let_def payload_defs json_defs query_defs store_defs)

theorem null_item_counterexample:
  "isValid (verifyPaddleSignature production_env (rt_hmac sample_runtime) (rt_now sample_runtime)
             (req_signature null_item_request) ''null-item'')
   \<and> rt_json_parse sample_runtime ''null-item'' = Some (event ''transaction.completed'' null_item_purchase)
   \<and> validateWebhookPayload (event ''transaction.completed'' null_item_purchase)
       = Inr \<lparr>v_isValid = True, v_errors = []\<rparr>
   \<and> serve production_env sample_runtime sample_store null_item_request
       = (\<lparr>status = 500, body = Internal_error ''r1''\<rparr>, sample_store)"
proof -
  have valid: "validateWebhookPayload (event ''transaction.completed'' null_item_purchase)
       = Inr \<lparr>v_isValid = True, v_errors = []\<rparr>"
    by (simp add: validateWebhookPayload_def payload_defs opt_member_def)
  have rt: "rt_hmac sample_runtime = concat_hmac" "rt_now sample_runtime = 1100"
    "rt_json_parse sample_runtime ''null-item'' = Some (event ''transaction.completed'' null_item_purchase)"
    "rt_request_id sample_runtime = ''r1''"
    by (simp_all add: sample_runtime_def)
  have req: "req_method null_item_request \<noteq> ''OPTIONS''"
    "req_text null_item_request = Some ''null-item''"
    "req_signature null_item_request = Some ''ts=1000;h1=K1000:null-item''"
    by (simp_all add: null_item_request_def)
  have config: "validateEnvironment production_env"
    by (simp add: validateEnvironment_def falsy_str_def production_env_def
        APP_ENVIRONMENT_def PADDLE_WEBHOOK_SIGNING_SECRET_def)
  have nn: "event ''transaction.completed'' null_item_purchase \<noteq> JNull"
    by (simp add: event_def)
  have "serve production_env sample_runtime sample_store null_item_request
       = (\<lparr>status = 500, body = Internal_error ''r1''\<rparr>, sample_store)"
    by (simp add: serve_def req config rt null_item_signature valid nn null_item_route)
  with valid rt req null_item_signature show ?thesis by simp
qed

lemma unknown_product_route:
  "route sample_runtime sample_store (event ''subscription.created'' unknown_subscription)
     = (Inr \<lparr>success = False, message = Plan_not_found (Some (JStr ''pri_invalid_product_id''))\<rparr>,
        sample_store)"
  by (simp add: route_def handleSubscriptionEvent_def subscription_product_id_def Let_def
      payload_defs json_defs query_defs store_defs)

lemma unknown_product_signature:
  "verifyPaddleSignature production_env concat_hmac 1100 (Some ''ts=1000;h1=K1000:unknown'') ''unknown''
     = \<lparr>isValid = True, reason = ''valid''\<rparr>"
proof -
  have "toLowerCase ''k1000:unknown'' = toLowerCase ''K1000:unknown''" by code_simp
  then show ?thesis
    by (simp add: verifyPaddleSignature_def sample_production header_field_def startsWith_def
        at_index_def parseInt10_def is_js_space_def is_digit_def digits_value_def
        WEBHOOK_TIMESTAMP_TOLERANCE_SECONDS_def concat_hmac_def)
qed

theorem serve_acknowledges_witness:
  "get_prop (event ''subscription.created'' unknown_subscription) ''event_type''
     = Some (JStr ''subscription.created'')
   \<and> subscription_plans sample_store = [premium_plan]
   \<and> \<not> plan_matches (subscription_product_id unknown_subscription) premium_plan
   \<and> serve production_env sample_runtime sample_store unknown_product_request
     = (\<lparr>status = 200,
         body = Received False (Plan_not_found (Some (JStr ''pri_invalid_product_id''))) ''r1''\<rparr>,
        sample_store)"
proof -
  have req: "req_method unknown_product_request \<noteq> ''OPTIONS''"
    "req_text unknown_product_request = Some ''unknown''"
    "req_signature unknown_product_request = Some ''ts=1000;h1=K1000:unknown''"
    by (simp_all add: unknown_product_request_def)
  have rt: "rt_hmac sample_runtime = concat_hmac" "rt_now sample_runtime = 1100"
    "rt_json_parse sample_runtime ''unknown'' = Some (event ''subscription.created'' unknown_subscription)"
    "rt_request_id sample_runtime = ''r1''"
    by (simp_all add: sample_runtime_def)
  have config: "validateEnvironment production_env"
    by (simp add: validateEnvironment_def falsy_str_def production_env_def
        APP_ENVIRONMENT_def PADDLE_WEBHOOK_SIGNING_SECRET_def)
  have signature: "isValid (verifyPaddleSignature production_env (rt_hmac sample_runtime)
      (rt_now sample_runtime) (req_signature unknown_product_request) ''unknown'')"
    by (simp add: rt req unknown_product_signature)
  have v: "v_isValid \<lparr>v_isValid = True, v_errors = []\<rparr>" by simp
  have ne: "''subscription.created'' \<noteq> []" by simp
  note all = serve_acknowledges [where s = sample_store,
      OF req(1) config req(2) signature rt(3) sample_valid(2) [OF ne] v]
  have created: "get_prop (event ''subscription.created'' unknown_subscription) ''event_type''
     = Some (JStr ''subscription.created'')"
    and data: "get_prop (event ''subscription.created'' unknown_subscription) ''data''
     = Some unknown_subscription"
    by (simp_all add: event_def)
  have user: "uv_isValid (fst (validateUser sample_store
                 (opt_member (get_prop unknown_subscription ''custom_data'') ''userId'')))"
    by (simp add: sample_user_id sample_user)
  have pid: "truthy (subscription_product_id unknown_subscription)"
    by (simp add: sample_product_id)
  have none: "\<forall>p \<in> set (subscription_plans sample_store).
          \<not> plan_matches (subscription_product_id unknown_subscription) p"
    by (simp add: sample_product_id store_defs plan_matches_def filter_value_def)
  from all [THEN conjunct2, THEN conjunct2, THEN conjunct2, rule_format,
      OF conjI [OF created conjI [OF data conjI [OF user conjI [OF pid none]]]]]
  have answered: "fst (serve production_env sample_runtime sample_store unknown_product_request)
     = \<lparr>status = 200,
        body = Received False (Plan_not_found (Some (JStr ''pri_invalid_product_id''))) ''r1''\<rparr>"
    by (simp add: rt sample_product_id)
  from all [THEN conjunct1, rule_format, OF unknown_product_route]
  have "snd (serve production_env sample_runtime sample_store unknown_product_request) = sample_store"
    by simp
  with answered have "serve production_env sample_runtime sample_store unknown_product_request
     = (\<lparr>status = 200,
         body = Received False (Plan_not_found (Some (JStr ''pri_invalid_product_id''))) ''r1''\<rparr>,
        sample_store)"
    by (simp add: prod_eq_iff)
  moreover have "subscription_plans sample_store = [premium_plan]"
    "\<not> plan_matches (subscription_product_id unknown_subscription) premium_plan"
    using none by (simp_all add: sample_store_def)
  ultimately show ?thesis using created by simp
qed

section \<open>Contact fields of an upserted profile\<close>

lemma upsertUserProfile_contact:
  assumes "upsertUserProfile ts s uid (Some cd) sd = (r, s')"
  shows "(\<not> ur_success r \<and> profiles s' = profiles s)
       \<or> (ur_success r \<and> (\<exists>row. profiles s' = (profiles s)(filter_value uid \<mapsto> row)
            \<and> row ''email'' = or_else (get_prop cd ''email'') (Some (JStr ''unknown@example.com''))
            \<and> row ''full_name'' = or_else (get_prop cd ''full_name'') (Some (JStr ''Unknown User''))))"
proof (cases "ur_success r")
  case False
  with upsertUserProfile_frame(3) [OF assms] show ?thesis by simp
next
  case True
  from upsertUserProfile_frame(4) [OF assms True] obtain new where
    "profiles s' = (profiles s)(filter_value uid \<mapsto> new)"
    "new ''email'' = to_row (profileData ts uid cd sd) ''email''"
    "new ''full_name'' = to_row (profileData ts uid cd sd) ''full_name''"
    by auto
  with True show ?thesis by (auto simp: profileData_columns)
qed

lemma handlers_write_contact:
  assumes nn: "payload \<noteq> JNull" and data: "get_prop payload ''data'' = Some d" and d: "d \<noteq> JNull"
    and cd: "get_prop d ''custom_data'' = Some cd" "truthy (Some cd)" "cd \<noteq> JNull"
    and h: "handler = handleSubscriptionEvent \<or> handler = handleTransactionCompleted
            \<or> handler = handleSubscriptionCanceled"
    and run: "handler rt s payload = (out, s')"
  shows "profiles s' = profiles s
       \<or> (\<exists>row. profiles s' = (profiles s)(filter_value (get_prop cd ''userId'') \<mapsto> row)
            \<and> row ''email'' = or_else (get_prop cd ''email'') (Some (JStr ''unknown@example.com''))
            \<and> row ''full_name'' = or_else (get_prop cd ''full_name'') (Some (JStr ''Unknown User'')))"
    (is "_ \<or> ?written s'")
proof -
  obtain uv s1 where user: "validateUser s (get_prop cd ''userId'') = (uv, s1)" by force
  from validateUser_tables [OF user] have t1: "profiles s1 = profiles s" by simp
  show ?thesis
  proof (cases "uv_isValid uv")
    case False
    from invalid_user [OF nn data d cd user False, of rt] h run t1 show ?thesis by auto
  next
    case True
    note facts = nn data d cd(1) cd(2) cd(3) user True
    from h consider (sub) "handler = handleSubscriptionEvent" | (tx) "handler = handleTransactionCompleted"
      | (cancel) "handler = handleSubscriptionCanceled" by blast
    then show ?thesis
    proof cases
      case sub
      note unfold = run [unfolded sub handleSubscriptionEvent_unfold [OF facts]]
      show ?thesis
      proof (cases "truthy (subscription_product_id d)")
        case False
        with unfold t1 show ?thesis by (simp add: Let_def)
      next
        case tp: True
        obtain pr s2 where sp: "select_plan s1 (subscription_product_id d) = (pr, s2)" by force
        from select_plan_tables [OF sp] t1 have t2: "profiles s2 = profiles s" by simp
        show ?thesis
        proof (cases pr)
          case (Inl err)
          with unfold tp sp t2 show ?thesis by (simp add: Let_def)
        next
          case (Inr p)
          obtain ur s3 where up: "upsertUserProfile (rt_iso rt) s2 (get_prop cd ''userId'') (Some cd)
              \<lparr>sd_status = get_prop d ''status'', sd_planName = toLowerCase (plan_name p),
               sd_customerId = get_prop d ''customer_id''\<rparr> = (ur, s3)" by force
          obtain sr s4 where us: "upsertSubscription (rt_iso rt) s3
              \<lparr>sr_userId = get_prop cd ''userId'', sr_planId = Some (JStr (plan_id p)),
               sr_paddleSubscriptionId = get_prop d ''id'', sr_status = get_prop d ''status'',
               sr_currentPeriodStart = opt_member (get_prop d ''current_billing_period'') ''starts_at'',
               sr_currentPeriodEnd = opt_member (get_prop d ''current_billing_period'') ''ends_at''\<rparr>
              = (sr, s4)" by force
          from upsertSubscription_frame [OF us] have t4: "profiles s4 = profiles s3" by simp
          from unfold tp sp Inr up us have "s' = s3 \<or> s' = s4"
            by (simp add: Let_def split: if_splits)
          with t4 have "profiles s' = profiles s3" by auto
          with upsertUserProfile_contact [OF up] t2 show ?thesis by auto
        qed
      qed
    next
      case tx
      note unfold = run [unfolded tx handleTransactionCompleted_unfold [OF facts]]
      let ?guard = "\<not> truthy (get_prop d ''subscription_id'')
           \<and> gt_zero (rt_positive rt) (opt_member (get_prop d ''items'') ''length'')"
      show ?thesis
      proof (cases "?guard")
        case False
        with unfold t1 show ?thesis by auto
      next
        case g: True
        show ?thesis
        proof (cases "member (opt_member (get_prop d ''items'') ''0'') ''product_id''")
          case (Inl x)
          with unfold g t1 show ?thesis by simp
        next
          case (Inr a)
          show ?thesis
          proof (cases "truthy (transaction_product_id d)")
            case False
            with unfold g Inr t1 show ?thesis by (simp add: Let_def)
          next
            case tp: True
            obtain pr s2 where sp: "select_plan s1 (transaction_product_id d) = (pr, s2)" by force
            from select_plan_tables [OF sp] t1 have t2: "profiles s2 = profiles s" by simp
            show ?thesis
            proof (cases pr)
              case (Inl err)
              with unfold g Inr tp sp t2 show ?thesis by (simp add: Let_def)
            next
              case p: (Inr p)
              obtain ur s3 where up: "upsertUserProfile (rt_iso rt) s2 (get_prop cd ''userId'') (Some cd)
                  \<lparr>sd_status = Some (JStr ''active''), sd_planName = toLowerCase (plan_name p),
                   sd_customerId = get_prop d ''customer_id''\<rparr> = (ur, s3)" by force
              from unfold g Inr tp sp p up have "s' = s3"
                by (simp add: Let_def split: if_splits)
              with upsertUserProfile_contact [OF up] t2 show ?thesis by auto
            qed
          qed
        qed
      qed
    next
      case cancel
      note unfold = run [unfolded cancel handleSubscriptionCanceled_unfold [OF facts]]
      obtain ur s2 where up: "upsertUserProfile (rt_iso rt) s1 (get_prop cd ''userId'') (Some cd)
             \<lparr>sd_status = or_else (get_prop d ''status'') (Some (JStr ''canceled'')),
              sd_planName = ''free'', sd_customerId = get_prop d ''customer_id''\<rparr> = (ur, s2)" by force
      obtain er s3 where us: "update_subscriptions s2 (get_prop d ''id'')
                     (to_row
                        [(''status'', or_else (get_prop d ''status'') (Some (JStr ''canceled''))),
                         (''updated_at'', Some (JStr (rt_iso rt))),
                         (''current_period_end'',
                            or_else (opt_member (get_prop d ''current_billing_period'') ''ends_at'')
                              (Some (JStr (rt_iso rt))))]) = (er, s3)" by force
      from update_subscriptions_frame [OF us] have t3: "profiles s3 = profiles s2" by simp
      from unfold up us have "s' = s2 \<or> s' = s3"
        by (cases er) (simp_all split: if_splits)
      with t3 have "profiles s' = profiles s2" by auto
      with upsertUserProfile_contact [OF up] t1 show ?thesis by auto
    qed
  qed
qed

text \<open>
  C10. Every successful profile upsert stores \<open>unknown@example.com\<close> as the email when
  \<open>custom_data\<close> has no (truthy) \<open>email\<close>, and \<open>Unknown User\<close> as the full name when it has
  no \<open>full_name\<close>, whatever the profile held before. The same holds on the three paths:
  whenever the subscription, transaction or cancellation handler changes the profiles
  for a validated event, the change is one row, that of the event's user, with these
  values; a field the event does carry is stored as it is.
\<close>

theorem profile_contact_defaults:
  assumes valid: "validateWebhookPayload payload = Inr v" "v_isValid v"
    and data: "get_prop payload ''data'' = Some d"
    and custom: "get_prop d ''custom_data'' = Some cd"
    and handler: "handler = handleSubscriptionEvent \<or> handler = handleTransactionCompleted
                  \<or> handler = handleSubscriptionCanceled"
    and run: "handler rt s payload = (out, s')"
    and written: "profiles s' \<noteq> profiles s"
  shows "(\<exists>row. profiles s' = (profiles s)(filter_value (get_prop cd ''userId'') \<mapsto> row)
            \<and> (\<not> truthy (get_prop cd ''email'') \<longrightarrow> row ''email'' = Some (JStr ''unknown@example.com''))
            \<and> (\<not> truthy (get_prop cd ''full_name'') \<longrightarrow> row ''full_name'' = Some (JStr ''Unknown User''))
            \<and> (truthy (get_prop cd ''email'') \<longrightarrow> row ''email'' = get_prop cd ''email'')
            \<and> (truthy (get_prop cd ''full_name'') \<longrightarrow> row ''full_name'' = get_prop cd ''full_name''))
       \<and> (\<forall>ts t uid sd r t'.
             upsertUserProfile ts t uid (Some cd) sd = (r, t') \<and> ur_success r \<longrightarrow>
             (\<exists>row. profiles t' (filter_value uid) = Some row
                \<and> (\<not> truthy (get_prop cd ''email'') \<longrightarrow>
                      row ''email'' = Some (JStr ''unknown@example.com''))
                \<and> (\<not> truthy (get_prop cd ''full_name'') \<longrightarrow>
                      row ''full_name'' = Some (JStr ''Unknown User''))))"
proof -
  from valid data custom have facts: "payload \<noteq> JNull" "d \<noteq> JNull" "truthy (Some cd)" "cd \<noteq> JNull"
    by (auto elim!: validated_payload)
  from handlers_write_contact [OF facts(1) data facts(2) custom facts(3) facts(4) handler run] written
  obtain row where row: "profiles s' = (profiles s)(filter_value (get_prop cd ''userId'') \<mapsto> row)"
    "row ''email'' = or_else (get_prop cd ''email'') (Some (JStr ''unknown@example.com''))"
    "row ''full_name'' = or_else (get_prop cd ''full_name'') (Some (JStr ''Unknown User''))"
    by blast
  then have handlers: "\<exists>row. profiles s' = (profiles s)(filter_value (get_prop cd ''userId'') \<mapsto> row)
            \<and> (\<not> truthy (get_prop cd ''email'') \<longrightarrow> row ''email'' = Some (JStr ''unknown@example.com''))
            \<and> (\<not> truthy (get_prop cd ''full_name'') \<longrightarrow> row ''full_name'' = Some (JStr ''Unknown User''))
            \<and> (truthy (get_prop cd ''email'') \<longrightarrow> row ''email'' = get_prop cd ''email'')
            \<and> (truthy (get_prop cd ''full_name'') \<longrightarrow> row ''full_name'' = get_prop cd ''full_name'')"
    by (auto simp: or_else_def)
  have every_upsert: "\<exists>row. profiles t' (filter_value uid) = Some row
                \<and> (\<not> truthy (get_prop cd ''email'') \<longrightarrow>
                      row ''email'' = Some (JStr ''unknown@example.com''))
                \<and> (\<not> truthy (get_prop cd ''full_name'') \<longrightarrow>
                      row ''full_name'' = Some (JStr ''Unknown User''))"
    if "upsertUserProfile ts t uid (Some cd) sd = (r, t')" and "ur_success r" for ts t uid sd r t'
    using upsertUserProfile_contact [OF that(1)] that(2) by (auto simp: or_else_def)
  from handlers every_upsert show ?thesis by blast
qed

lemma cancellation_run_profile:
  "\<exists>row. profiles (snd (handleSubscriptionCanceled sample_runtime sample_store
                          (event ''subscription.canceled'' cancellation))) (JStr ''user_1'') = Some row
         \<and> row ''subscription_plan'' = Some (JStr ''free'')"
  by (simp add: handleSubscriptionCanceled_def upsertUserProfile_def update_subscriptions_def
      profileData_def to_row_Cons to_row_Nil Let_def payload_defs json_defs query_defs store_defs
      split: prod.splits)

theorem profile_contact_defaults_witness:
  "profiles sample_store (JStr ''user_1'') = Some stored_profile
   \<and> stored_profile ''email'' = Some (JStr ''ada@example.com'')
   \<and> stored_profile ''full_name'' = Some (JStr ''Ada'')
   \<and> (\<exists>row. profiles (snd (handleSubscriptionCanceled sample_runtime sample_store
                             (event ''subscription.canceled'' cancellation))) (JStr ''user_1'') = Some row
          \<and> row ''email'' = Some (JStr ''unknown@example.com'')
          \<and> row ''full_name'' = Some (JStr ''Unknown User''))"
proof -
  have old: "profiles sample_store (JStr ''user_1'') = Some stored_profile"
    "stored_profile ''email'' = Some (JStr ''ada@example.com'')"
    "stored_profile ''full_name'' = Some (JStr ''Ada'')"
    "stored_profile ''subscription_plan'' = Some (JStr ''basic'')"
    by (simp_all add: sample_store_def stored_profile_def)
  have data: "get_prop (event ''subscription.canceled'' cancellation) ''data'' = Some cancellation"
    by (simp add: event_def)
  have custom: "get_prop cancellation ''custom_data'' = Some user_1_data"
    by (simp add: cancellation_def)
  have absent: "\<not> truthy (get_prop user_1_data ''email'')" "\<not> truthy (get_prop user_1_data ''full_name'')"
    "filter_value (get_prop user_1_data ''userId'') = JStr ''user_1''"
    by (simp_all add: user_1_data_def filter_value_def)
  have v: "v_isValid \<lparr>v_isValid = True, v_errors = []\<rparr>" by simp
  have written: "profiles (snd (handleSubscriptionCanceled sample_runtime sample_store
                          (event ''subscription.canceled'' cancellation))) \<noteq> profiles sample_store"
  proof
    assume same: "profiles (snd (handleSubscriptionCanceled sample_runtime sample_store
                          (event ''subscription.canceled'' cancellation))) = profiles sample_store"
    from cancellation_run_profile obtain row where
      "profiles (snd (handleSubscriptionCanceled sample_runtime sample_store
                          (event ''subscription.canceled'' cancellation))) (JStr ''user_1'') = Some row"
      and free: "row ''subscription_plan'' = Some (JStr ''free'')" by blast
    with same old(1) have "row = stored_profile" by simp
    with free old(4) show False by simp
  qed
  have h: "handleSubscriptionCanceled = handleSubscriptionEvent
           \<or> handleSubscriptionCanceled = handleTransactionCompleted
           \<or> handleSubscriptionCanceled = handleSubscriptionCanceled" by simp
  from profile_contact_defaults [where handler = handleSubscriptionCanceled and rt = sample_runtime
        and s = sample_store, OF cancellation_valid(1) v data custom h surjective_pairing written,
      THEN conjunct1] absent
  have "\<exists>row. profiles (snd (handleSubscriptionCanceled sample_runtime sample_store
                             (event ''subscription.canceled'' cancellation))) (JStr ''user_1'') = Some row
          \<and> row ''email'' = Some (JStr ''unknown@example.com'')
          \<and> row ''full_name'' = Some (JStr ''Unknown User'')"
    by auto
  with old show ?thesis by simp
qed

end
